theory Spec2Isabelle
  imports Main "HOL-Library.Word" "HOL-Library.AList"
begin

unbundle bit_operations_syntax

section \<open>The Discord RPC client of \<^verbatim>\<open>src/discord/discordrpc.cpp\<close>\<close>

subsection \<open>Bytes, machine integers, JSON values\<close>

text \<open>
  A \<^verbatim>\<open>QByteArray\<close> is a list of bytes, a \<^verbatim>\<open>quint32\<close> a 32-bit word. The C++
  \<^verbatim>\<open>int\<close> is a 32-bit two's complement integer: it is modelled as an \<open>int\<close>, and
  the result of an \<^verbatim>\<open>int\<close> addition is passed through \<open>int32\<close>, which wraps it
  into the 32-bit range. \<^verbatim>\<open>QByteArray::size()\<close> is a 64-bit \<^verbatim>\<open>qsizetype\<close> (Qt 6),
  which a list length never leaves in practice, so it is a \<open>nat\<close>.
\<close>

type_synonym byte = "8 word"
type_synonym quint32 = "32 word"

definition int32 :: "int \<Rightarrow> int" where
  "int32 x = (x + 2 ^ 31) mod 2 ^ 32 - 2 ^ 31"

text \<open>
  \<^verbatim>\<open>frame.append(reinterpret_cast<const char*>(&opcode), sizeof(opcode))\<close> and
  \<^verbatim>\<open>memcpy(&opcode, read_buffer_.constData(), sizeof(opcode))\<close> copy the four bytes of a
  \<^verbatim>\<open>quint32\<close> in the byte order of the host, which is little-endian on the
  platforms the player runs on (and in the wire format).
\<close>

definition le32 :: "quint32 \<Rightarrow> byte list" where
  "le32 w = [ucast w, ucast (drop_bit 8 w), ucast (drop_bit 16 w), ucast (drop_bit 24 w)]"

definition read_le32 :: "byte list \<Rightarrow> quint32" where
  "read_le32 bs =
     ucast (bs ! 0) OR push_bit 8 (ucast (bs ! 1)) OR
     push_bit 16 (ucast (bs ! 2)) OR push_bit 24 (ucast (bs ! 3))"

text \<open>
  The values of \<^verbatim>\<open>QJsonValue\<close>. A \<^verbatim>\<open>QJsonObject\<close> is a dictionary with unique
  keys: an association list, where \<^verbatim>\<open>obj["k"] = v\<close> is \<open>AList.update\<close> and
  \<^verbatim>\<open>obj.value("k")\<close> is \<open>map_of\<close>. The numbers this program writes are integers.
\<close>

datatype QJsonValue =
    JNull
  | JBool bool
  | JNumber int
  | JString string
  | JArray "QJsonValue list"
  | JObject "(string \<times> QJsonValue) list"

text \<open>\<^verbatim>\<open>QJsonValue::toString()\<close>: the string of a string value, the empty string otherwise
  (also for the undefined value of a missing key).\<close>

fun toString :: "QJsonValue option \<Rightarrow> string" where
  "toString (Some (JString str)) = str"
| "toString _ = []"

text \<open>\<^verbatim>\<open>QString::number(int)\<close>: the decimal digits, with a minus sign when negative.\<close>

fun digits10 :: "nat \<Rightarrow> string" where
  "digits10 n =
     (if n < 10 then [char_of (48 + n)]
      else digits10 (n div 10) @ [char_of (48 + n mod 10)])"

definition QString_number :: "int \<Rightarrow> string" where
  "QString_number i = (if i < 0 then CHR ''-'' # digits10 (nat (- i)) else digits10 (nat i))"

text \<open>
  What the program takes from outside: the JSON parser and printer of Qt
  (\<^verbatim>\<open>QJsonDocument::fromJson\<close>, with \<open>None\<close> for a parse error, and
  \<^verbatim>\<open>QJsonDocument::toJson(Compact)\<close>), and the process id.
\<close>

record qt_env =
  fromJson :: "byte list \<Rightarrow> QJsonValue option"
  toJson :: "QJsonValue \<Rightarrow> byte list"
  getpid :: int

subsection \<open>The data of \<^verbatim>\<open>discordrpc.h\<close>\<close>

record DiscordPresence =
  type :: int
  status_display_type :: int
  name :: string
  state :: string
  details :: string
  start_timestamp :: int
  end_timestamp :: int
  large_image_key :: string
  large_image_text :: string
  small_image_key :: string
  small_image_text :: string
  party_id :: string
  party_size :: int
  party_max :: int
  party_privacy :: int
  match_secret :: string
  join_secret :: string
  spectate_secret :: string
  instance' :: bool

text \<open>The default constructor \<^verbatim>\<open>DiscordPresence()\<close>: numbers 0, strings empty.\<close>

definition DiscordPresence_default :: DiscordPresence where
  "DiscordPresence_default =
     \<lparr> type = 0, status_display_type = 0, name = [], state = [], details = [],
       start_timestamp = 0, end_timestamp = 0,
       large_image_key = [], large_image_text = [], small_image_key = [], small_image_text = [],
       party_id = [], party_size = 0, party_max = 0, party_privacy = 0,
       match_secret = [], join_secret = [], spectate_secret = [], instance' = False \<rparr>"

datatype State = Disconnected | Connecting | SentHandshake | Connected

text \<open>The values of \<^verbatim>\<open>enum class Opcode : quint32\<close>.\<close>

abbreviation Opcode_Handshake :: quint32 where "Opcode_Handshake \<equiv> 0"
abbreviation Opcode_Frame :: quint32 where "Opcode_Frame \<equiv> 1"
abbreviation Opcode_Close :: quint32 where "Opcode_Close \<equiv> 2"
abbreviation Opcode_Ping :: quint32 where "Opcode_Ping \<equiv> 3"
abbreviation Opcode_Pong :: quint32 where "Opcode_Pong \<equiv> 4"

datatype LocalSocketState = UnconnectedState | ConnectingState | ConnectedState | ClosingState

text \<open>
  The members of \<^verbatim>\<open>class DiscordRPC\<close> (a member \<^verbatim>\<open>x_\<close> is the field \<open>x\<close>; the
  member \<^verbatim>\<open>state_\<close> is \<open>rpc_state\<close>). The two Qt objects the class owns are part of
  the state:
  \<^item> \<^verbatim>\<open>socket_\<close> is its \<^verbatim>\<open>state()\<close> and the list of the byte arrays passed to
    \<^verbatim>\<open>write\<close>, in call order;
  \<^item> \<^verbatim>\<open>reconnect_timer_\<close> (single shot) is \<open>Some d\<close> while it is running with
    interval \<open>d\<close> and \<open>None\<close> while it is stopped.
  The notifications of the socket and the timer are delivered by the event loop, one
  slot call at a time (see \<open>step\<close> below), but for the \<^verbatim>\<open>disconnected\<close> signal of a
  close that the object itself asks for, which arrives inside that call
  (see \<open>socket_disconnectFromServer\<close>).
\<close>

record DiscordRPC =
  application_id :: string
  socket_state :: LocalSocketState
  socket_written :: "byte list list"
  reconnect_timer :: "int option"
  rpc_state :: State
  nonce :: int
  reconnect_delay :: int
  read_buffer :: "byte list"

definition kReconnectMinDelayMs :: int where "kReconnectMinDelayMs = 500"
definition kReconnectMaxDelayMs :: int where "kReconnectMaxDelayMs = 60000"
definition kRpcVersion :: int where "kRpcVersion = 1"
definition kMaxFrameSize :: nat where "kMaxFrameSize = 64 * 1024"

text \<open>The source declares \<^verbatim>\<open>kMaxFrameSize\<close> and uses it nowhere: no function below
  compares a length with it.\<close>

text \<open>The constructor: no connection, no timer, nonce 1, the delay at its floor.\<close>

definition DiscordRPC_new :: "string \<Rightarrow> DiscordRPC" where
  "DiscordRPC_new app_id =
     \<lparr> application_id = app_id, socket_state = UnconnectedState, socket_written = [],
       reconnect_timer = None, rpc_state = Disconnected, nonce = 1,
       reconnect_delay = kReconnectMinDelayMs, read_buffer = [] \<rparr>"

subsection \<open>Writing to the socket\<close>

text \<open>\<^verbatim>\<open>socket_->write(frame); socket_->flush();\<close>\<close>

definition socket_write :: "byte list \<Rightarrow> DiscordRPC \<Rightarrow> DiscordRPC" where
  "socket_write frame s = s\<lparr>socket_written := socket_written s @ [frame]\<rparr>"

subsection \<open>Reconnect scheduling, disconnection and connection attempts\<close>

definition ScheduleReconnect :: "DiscordRPC \<Rightarrow> DiscordRPC" where
  "ScheduleReconnect s =
     s\<lparr>reconnect_timer := Some (reconnect_delay s),
       reconnect_delay := min (int32 (reconnect_delay s * 2)) kReconnectMaxDelayMs\<rparr>"

definition OnDisconnected :: "DiscordRPC \<Rightarrow> DiscordRPC" where
  "OnDisconnected s = ScheduleReconnect (s\<lparr>rpc_state := Disconnected, read_buffer := []\<rparr>)"

text \<open>
  \<^verbatim>\<open>socket_->disconnectFromServer()\<close> does nothing on an unconnected socket. Otherwise
  it closes the socket, and since every \<^verbatim>\<open>write\<close> of this class is followed by
  \<^verbatim>\<open>flush()\<close> no bytes are waiting to be written: the socket is unconnected and has
  reported \<^verbatim>\<open>disconnected\<close> before the call returns. The constructor connects that
  signal to \<^verbatim>\<open>OnDisconnected\<close> in the same thread, so the slot runs inside the call.
\<close>

definition socket_disconnectFromServer :: "DiscordRPC \<Rightarrow> DiscordRPC" where
  "socket_disconnectFromServer s =
     (if socket_state s = UnconnectedState then s
      else OnDisconnected (s\<lparr>socket_state := UnconnectedState\<rparr>))"

text \<open>
  The scan of the candidate endpoints in \<^verbatim>\<open>ConnectToDiscord\<close>: the list holds, for
  each candidate in order, what \<^verbatim>\<open>waitForConnected(100)\<close> returns for it (which
  endpoints exist is decided outside the program). The first success ends the scan and
  leaves the socket connected; when no candidate connects the socket is unconnected.
\<close>

fun connect_candidates :: "bool list \<Rightarrow> bool" where
  "connect_candidates [] = False"
| "connect_candidates (ok # rest) = (if ok then True else connect_candidates rest)"

definition ConnectToDiscord :: "bool list \<Rightarrow> DiscordRPC \<Rightarrow> DiscordRPC" where
  "ConnectToDiscord attempts s =
     (if rpc_state s \<noteq> Disconnected then s
      else
        (let s1 = s\<lparr>rpc_state := Connecting\<rparr>
         in if connect_candidates attempts then s1\<lparr>socket_state := ConnectedState\<rparr>
            else ScheduleReconnect
                   (s1\<lparr>socket_state := UnconnectedState, rpc_state := Disconnected\<rparr>)))"

definition Initialize :: "bool list \<Rightarrow> DiscordRPC \<Rightarrow> DiscordRPC" where
  "Initialize attempts s =
     (if rpc_state s \<noteq> Disconnected then s else ConnectToDiscord attempts s)"

definition Shutdown :: "DiscordRPC \<Rightarrow> DiscordRPC" where
  "Shutdown s =
     (let s1 = s\<lparr>reconnect_timer := None\<rparr>;
          s2 = (if socket_state s1 \<noteq> UnconnectedState then socket_disconnectFromServer s1 else s1)
      in s2\<lparr>rpc_state := Disconnected\<rparr>)"

definition OnReconnectTimer :: "bool list \<Rightarrow> DiscordRPC \<Rightarrow> DiscordRPC" where
  "OnReconnectTimer attempts s = ConnectToDiscord attempts s"

definition OnError :: "DiscordRPC \<Rightarrow> DiscordRPC" where
  "OnError s = s"

subsection \<open>Frames written\<close>

text \<open>The three \<^verbatim>\<open>append\<close> calls that build a frame: opcode, length, data.\<close>

definition frame_bytes :: "quint32 \<Rightarrow> quint32 \<Rightarrow> byte list \<Rightarrow> byte list" where
  "frame_bytes opcode len data = le32 opcode @ le32 len @ data"

definition CreateHandshakeMessage :: "qt_env \<Rightarrow> DiscordRPC \<Rightarrow> byte list" where
  "CreateHandshakeMessage env s =
     (let obj = [];
          obj = AList.update ''v'' (JNumber kRpcVersion) obj;
          obj = AList.update ''client_id'' (JString (application_id s)) obj
      in toJson env (JObject obj))"

definition SendHandshake :: "qt_env \<Rightarrow> DiscordRPC \<Rightarrow> DiscordRPC" where
  "SendHandshake env s =
     (let handshake_data = CreateHandshakeMessage env s;
          opcode = Opcode_Handshake;
          len = (word_of_nat (length handshake_data) :: quint32)
      in socket_write (frame_bytes opcode len handshake_data) s)"

definition SendFrame :: "byte list \<Rightarrow> DiscordRPC \<Rightarrow> DiscordRPC" where
  "SendFrame data s =
     (if rpc_state s \<noteq> Connected then s
      else (let opcode = Opcode_Frame;
                len = (word_of_nat (length data) :: quint32)
            in socket_write (frame_bytes opcode len data) s))"

definition OnConnected :: "qt_env \<Rightarrow> DiscordRPC \<Rightarrow> DiscordRPC" where
  "OnConnected env s =
     SendHandshake env (s\<lparr>rpc_state := SentHandshake, reconnect_delay := kReconnectMinDelayMs\<rparr>)"

subsection \<open>Incoming data\<close>

definition HandleMessage :: "qt_env \<Rightarrow> byte list \<Rightarrow> DiscordRPC \<Rightarrow> DiscordRPC" where
  "HandleMessage env data s =
     (case fromJson env data of
        Some (JObject obj) \<Rightarrow>
          (if rpc_state s = SentHandshake then
             (let cmd = toString (map_of obj ''cmd'');
                  evt = toString (map_of obj ''evt'')
              in if cmd = ''DISPATCH'' \<and> evt = ''READY'' then s\<lparr>rpc_state := Connected\<rparr> else s)
           else s)
      | _ \<Rightarrow> s)"

text \<open>
  One round of the \<^verbatim>\<open>while\<close> loop of \<^verbatim>\<open>ProcessIncomingData\<close>. \<open>None\<close>: the
  function returns, either because the loop condition is false or through
  \<^verbatim>\<open>return;  // Wait for more data\<close>. Otherwise the new state, together with the opcode
  and \<^verbatim>\<open>message_data\<close> the \<^verbatim>\<open>switch\<close> was entered with.

  The types are those of the source: \<^verbatim>\<open>header_size + static_cast<int>(length)\<close> is an
  \<^verbatim>\<open>int\<close> sum of the length read as a signed number, \<^verbatim>\<open>header_size + length\<close> in
  \<^verbatim>\<open>remove\<close> is an unsigned 32-bit sum, and \<^verbatim>\<open>mid\<close> and \<^verbatim>\<open>remove\<close> stop at the
  end of the array.
\<close>

type_synonym frame_event = "quint32 \<times> byte list"

definition ProcessIncomingData_round :: "qt_env \<Rightarrow> DiscordRPC \<Rightarrow> (DiscordRPC \<times> frame_event) option" where
  "ProcessIncomingData_round env s =
     (if 8 \<le> length (read_buffer s) then
        (let opcode = read_le32 (read_buffer s);
             len = read_le32 (drop 4 (read_buffer s));
             header_size = (8 :: int)
         in if int (length (read_buffer s)) < int32 (header_size + sint len) then None
            else
              (let message_data = take (unat len) (drop (nat header_size) (read_buffer s));
                   s1 = s\<lparr>read_buffer := drop (unat (word_of_int header_size + len)) (read_buffer s)\<rparr>;
                   s2 = (if opcode = Opcode_Frame then HandleMessage env message_data s1
                         else if opcode = Opcode_Close then socket_disconnectFromServer s1
                         else if opcode = Opcode_Ping then
                           socket_write (frame_bytes Opcode_Pong len message_data) s1
                         else s1)
               in Some (s2, (opcode, message_data))))
      else None)"

text \<open>
  The loop. It need not end (a round may remove nothing from the buffer), so the result
  is an option: \<open>None\<close> when the loop runs forever. The second component collects the
  frames handed to the \<^verbatim>\<open>switch\<close>, in order.
\<close>

partial_function (option) ProcessIncomingData_loop ::
  "qt_env \<Rightarrow> DiscordRPC \<Rightarrow> frame_event list \<Rightarrow> (DiscordRPC \<times> frame_event list) option" where
  "ProcessIncomingData_loop env s evs =
     (case ProcessIncomingData_round env s of
        None \<Rightarrow> Some (s, evs)
      | Some (s', ev) \<Rightarrow> ProcessIncomingData_loop env s' (evs @ [ev]))"

definition ProcessIncomingData :: "qt_env \<Rightarrow> DiscordRPC \<Rightarrow> DiscordRPC option" where
  "ProcessIncomingData env s = map_option fst (ProcessIncomingData_loop env s [])"

text \<open>\<^verbatim>\<open>OnReadyRead\<close>; the argument is what \<^verbatim>\<open>socket_->readAll()\<close> returns.\<close>

definition OnReadyRead :: "qt_env \<Rightarrow> byte list \<Rightarrow> DiscordRPC \<Rightarrow> DiscordRPC option" where
  "OnReadyRead env chunk s = ProcessIncomingData env (s\<lparr>read_buffer := read_buffer s @ chunk\<rparr>)"

subsection \<open>Presence messages\<close>

text \<open>The \<^verbatim>\<open>activity\<close> object that \<^verbatim>\<open>CreatePresenceMessage\<close> builds from a presence.\<close>

definition CreatePresenceMessage_activity :: "DiscordPresence \<Rightarrow> (string \<times> QJsonValue) list" where
  "CreatePresenceMessage_activity presence =
     (let activity = [];
          activity =
            (if type presence \<ge> 0 \<and> type presence \<le> 5 then
               AList.update ''status_display_type'' (JNumber (status_display_type presence))
                 (AList.update ''type'' (JNumber (type presence)) activity)
             else activity);
          activity =
            (if name presence \<noteq> [] then AList.update ''name'' (JString (name presence)) activity
             else activity);
          activity =
            (if state presence \<noteq> [] then AList.update ''state'' (JString (state presence)) activity
             else activity);
          activity =
            (if details presence \<noteq> [] then
               AList.update ''details'' (JString (details presence)) activity
             else activity);
          activity =
            (if start_timestamp presence > 0 \<or> end_timestamp presence > 0 then
               (let timestamps = [];
                    timestamps =
                      (if start_timestamp presence > 0 then
                         AList.update ''start'' (JNumber (start_timestamp presence)) timestamps
                       else timestamps);
                    timestamps =
                      (if end_timestamp presence > 0 then
                         AList.update ''end'' (JNumber (end_timestamp presence)) timestamps
                       else timestamps)
                in AList.update ''timestamps'' (JObject timestamps) activity)
             else activity);
          activity =
            (if large_image_key presence \<noteq> [] \<or> large_image_text presence \<noteq> [] \<or>
                small_image_key presence \<noteq> [] \<or> small_image_text presence \<noteq> [] then
               (let assets = [];
                    assets =
                      (if large_image_key presence \<noteq> [] then
                         AList.update ''large_image'' (JString (large_image_key presence)) assets
                       else assets);
                    assets =
                      (if large_image_text presence \<noteq> [] then
                         AList.update ''large_text'' (JString (large_image_text presence)) assets
                       else assets);
                    assets =
                      (if small_image_key presence \<noteq> [] then
                         AList.update ''small_image'' (JString (small_image_key presence)) assets
                       else assets);
                    assets =
                      (if small_image_text presence \<noteq> [] then
                         AList.update ''small_text'' (JString (small_image_text presence)) assets
                       else assets)
                in AList.update ''assets'' (JObject assets) activity)
             else activity);
          activity =
            (if party_id presence \<noteq> [] \<or> party_size presence > 0 \<or> party_max presence > 0 \<or>
                party_privacy presence > 0 then
               (let party = [];
                    party =
                      (if party_id presence \<noteq> [] then
                         AList.update ''id'' (JString (party_id presence)) party
                       else party);
                    party =
                      (if party_size presence > 0 \<and> party_max presence > 0 then
                         AList.update ''size''
                           (JArray [JNumber (party_size presence), JNumber (party_max presence)]) party
                       else party);
                    party =
                      (if party_privacy presence > 0 then
                         AList.update ''privacy'' (JNumber (party_privacy presence)) party
                       else party)
                in AList.update ''party'' (JObject party) activity)
             else activity);
          activity =
            (if match_secret presence \<noteq> [] \<or> join_secret presence \<noteq> [] \<or>
                spectate_secret presence \<noteq> [] then
               (let secrets = [];
                    secrets =
                      (if match_secret presence \<noteq> [] then
                         AList.update ''match'' (JString (match_secret presence)) secrets
                       else secrets);
                    secrets =
                      (if join_secret presence \<noteq> [] then
                         AList.update ''join'' (JString (join_secret presence)) secrets
                       else secrets);
                    secrets =
                      (if spectate_secret presence \<noteq> [] then
                         AList.update ''spectate'' (JString (spectate_secret presence)) secrets
                       else secrets)
                in AList.update ''secrets'' (JObject secrets) activity)
             else activity)
      in AList.update ''instance'' (JBool (instance' presence)) activity)"

text \<open>\<^verbatim>\<open>CreatePresenceMessage\<close> returns the message and increments the nonce
  (\<^verbatim>\<open>nonce_++\<close>, an \<^verbatim>\<open>int\<close>).\<close>

definition CreatePresenceMessage ::
  "qt_env \<Rightarrow> DiscordPresence \<Rightarrow> DiscordRPC \<Rightarrow> byte list \<times> DiscordRPC" where
  "CreatePresenceMessage env presence s =
     (let obj = [];
          obj = AList.update ''cmd'' (JString ''SET_ACTIVITY'') obj;
          obj = AList.update ''nonce'' (JString (QString_number (nonce s))) obj;
          s' = s\<lparr>nonce := int32 (nonce s + 1)\<rparr>;
          args = [];
          args = AList.update ''pid'' (JNumber (getpid env)) args;
          activity = CreatePresenceMessage_activity presence;
          args = AList.update ''activity'' (JObject activity) args;
          obj = AList.update ''args'' (JObject args) obj
      in (toJson env (JObject obj), s'))"

definition UpdatePresence :: "qt_env \<Rightarrow> DiscordPresence \<Rightarrow> DiscordRPC \<Rightarrow> DiscordRPC" where
  "UpdatePresence env presence s =
     (if rpc_state s = Connected then
        (case CreatePresenceMessage env presence s of (data, s') \<Rightarrow> SendFrame data s')
      else s)"

definition ClearPresence :: "qt_env \<Rightarrow> DiscordRPC \<Rightarrow> DiscordRPC" where
  "ClearPresence env s = UpdatePresence env DiscordPresence_default s"

definition IsConnected :: "DiscordRPC \<Rightarrow> bool" where
  "IsConnected s = (rpc_state s = Connected)"

subsection \<open>The event loop\<close>

text \<open>
  What can happen to the object: a call of its public interface, or one of the
  notifications that the constructor connects to a slot. A timer that is not running
  does not time out and stops when it does (it is single shot); an unconnected socket does
  not report \<^verbatim>\<open>connected\<close> or \<^verbatim>\<open>disconnected\<close>, and is unconnected once it has
  reported \<^verbatim>\<open>disconnected\<close>; the event \<open>Socket_disconnected\<close> is the loss of the
  connection from outside (the peer closes, or an error). A step is \<open>None\<close> when the
  slot does not return.
\<close>

datatype event =
    Call_Initialize "bool list"
  | Call_Shutdown
  | Call_UpdatePresence DiscordPresence
  | Call_ClearPresence
  | Socket_connected
  | Socket_disconnected
  | Socket_readyRead "byte list"
  | Socket_errorOccurred
  | Timer_timeout "bool list"

fun step :: "qt_env \<Rightarrow> event \<Rightarrow> DiscordRPC \<Rightarrow> DiscordRPC option" where
  "step env (Call_Initialize attempts) s = Some (Initialize attempts s)"
| "step env Call_Shutdown s = Some (Shutdown s)"
| "step env (Call_UpdatePresence presence) s = Some (UpdatePresence env presence s)"
| "step env Call_ClearPresence s = Some (ClearPresence env s)"
| "step env Socket_connected s =
     (if socket_state s = ConnectedState then Some (OnConnected env s) else Some s)"
| "step env Socket_disconnected s =
     (if socket_state s = UnconnectedState then Some s
      else Some (OnDisconnected (s\<lparr>socket_state := UnconnectedState\<rparr>)))"
| "step env (Socket_readyRead chunk) s = OnReadyRead env chunk s"
| "step env Socket_errorOccurred s = Some (OnError s)"
| "step env (Timer_timeout attempts) s =
     (case reconnect_timer s of
        None \<Rightarrow> Some s
      | Some d \<Rightarrow> Some (OnReconnectTimer attempts (s\<lparr>reconnect_timer := None\<rparr>)))"

fun run :: "qt_env \<Rightarrow> event list \<Rightarrow> DiscordRPC \<Rightarrow> DiscordRPC option" where
  "run env [] s = Some s"
| "run env (e # es) s = (case step env e s of None \<Rightarrow> None | Some s' \<Rightarrow> run env es s')"

subsection \<open>Encoded frames, and an environment to run the model in\<close>

text \<open>
  A frame as \<^verbatim>\<open>SendFrame\<close> and \<^verbatim>\<open>SendHandshake\<close> lay it out: the opcode, the
  size of the payload as a \<^verbatim>\<open>quint32\<close>, the payload.
\<close>

definition encode_frame :: "frame_event \<Rightarrow> byte list" where
  "encode_frame f = frame_bytes (fst f) (word_of_nat (length (snd f))) (snd f)"

text \<open>
  An environment for running the model on concrete inputs: a parser that knows one
  document, the READY message, and a printer that prints nothing.
\<close>

definition quoted :: "string \<Rightarrow> string" where
  "quoted str = CHR 0x22 # str @ [CHR 0x22]"

definition ready_text :: string where
  "ready_text =
     ''{'' @ quoted ''cmd'' @ '':'' @ quoted ''DISPATCH'' @ '','' @
     quoted ''evt'' @ '':'' @ quoted ''READY'' @ ''}''"

definition ready_message :: "byte list" where
  "ready_message = map of_char ready_text"

definition ready_document :: QJsonValue where
  "ready_document = JObject [(''cmd'', JString ''DISPATCH''), (''evt'', JString ''READY'')]"

definition env0 :: qt_env where
  "env0 =
     \<lparr> fromJson = (\<lambda>data. if data = ready_message then Some ready_document else None),
       toJson = (\<lambda>doc. []),
       getpid = 1 \<rparr>"

section \<open>Properties\<close>

subsection \<open>Frame headers\<close>

lemma length_le32: "length (le32 w) = 4"
  by (simp add: le32_def)

lemma read_le32_le32: "read_le32 (le32 w @ rest) = w"
proof (rule bit_word_eqI)
  fix n assume n: "n < LENGTH(32)"
  then have n32: "n < 32" by simp
  consider "n < 8" | "8 \<le> n" "n < 16" | "16 \<le> n" "n < 24" | "24 \<le> n" "n < 32"
    using n32 by linarith
  then show "bit (read_le32 (le32 w @ rest)) n = bit w n"
    by cases (auto simp: read_le32_def le32_def bit_simps)
qed

lemma int32_id: "- (2 ^ 31) \<le> x \<Longrightarrow> x < 2 ^ 31 \<Longrightarrow> int32 x = x"
  by (simp add: int32_def)

lemma int32_le: "- (2 ^ 31) \<le> x \<Longrightarrow> int32 x \<le> x"
proof -
  assume "- (2 ^ 31) \<le> x"
  then have "0 \<le> x + 2 ^ 31" by simp
  then have "(x + 2 ^ 31) mod 2 ^ 32 \<le> x + 2 ^ 31" by (rule zmod_le_nonneg_dividend)
  then show ?thesis by (simp add: int32_def)
qed

lemma sint_le_unat: "sint (len :: quint32) \<le> int (unat len)"
proof (cases "0 \<le> sint len")
  case True
  moreover have "sint len < 2 ^ 31" using sint_lt [of len] by simp
  ultimately show ?thesis by (simp add: uint_sint [of len] take_bit_eq_mod)
next
  case False
  then show ?thesis by linarith
qed

lemma int32_header_le: "int32 (8 + sint (len :: quint32)) \<le> 8 + int (unat len)"
proof -
  have "- (2 ^ 31) \<le> sint len" using sint_ge [of len] by simp
  then have "int32 (8 + sint len) \<le> 8 + sint len" by (intro int32_le) simp
  then show ?thesis using sint_le_unat [of len] by linarith
qed

lemma frame_bytes_read_opcode: "read_le32 (frame_bytes opcode len data @ rest) = opcode"
  by (simp add: frame_bytes_def read_le32_le32)

lemma frame_bytes_read_len: "read_le32 (drop 4 (frame_bytes opcode len data @ rest)) = len"
  by (simp add: frame_bytes_def length_le32 read_le32_le32)

lemma frame_bytes_drop8: "drop 8 (frame_bytes opcode len data @ rest) = data @ rest"
  by (simp add: frame_bytes_def length_le32)

lemma length_frame_bytes: "length (frame_bytes opcode len data) = 8 + length data"
  by (simp add: frame_bytes_def length_le32)

lemma ProcessIncomingData_round_frame:
  assumes len: "unat len = length data"
    and buf: "read_buffer s = frame_bytes opcode len data @ rest"
  shows "ProcessIncomingData_round env s =
     (let s1 = s\<lparr>read_buffer := drop (unat (8 + len)) (read_buffer s)\<rparr>
      in Some (if opcode = Opcode_Frame then HandleMessage env data s1
               else if opcode = Opcode_Close then socket_disconnectFromServer s1
               else if opcode = Opcode_Ping then socket_write (frame_bytes Opcode_Pong len data) s1
               else s1, (opcode, data)))"
proof -
  have size: "length (read_buffer s) = 8 + length data + length rest"
    by (simp add: buf length_frame_bytes)
  have "int32 (8 + sint len) \<le> 8 + int (unat len)" by (rule int32_header_le)
  then have nowait: "\<not> int (length (read_buffer s)) < int32 (8 + sint len)"
    by (simp add: size len)
  have op: "read_le32 (read_buffer s) = opcode"
    unfolding buf by (rule frame_bytes_read_opcode)
  have ln: "read_le32 (drop 4 (read_buffer s)) = len"
    unfolding buf by (rule frame_bytes_read_len)
  have "drop 8 (read_buffer s) = data @ rest"
    unfolding buf by (rule frame_bytes_drop8)
  then have msg: "take (unat len) (drop 8 (read_buffer s)) = data"
    by (simp add: len)
  show ?thesis
    unfolding ProcessIncomingData_round_def
    using nowait by (simp add: size op ln msg Let_def)
qed


lemma unat_frame_len: "n < 2 ^ 32 \<Longrightarrow> unat (word_of_nat n :: quint32) = n"
  by (simp add: unat_of_nat)

lemma unat_frame_size: "n + 8 < 2 ^ 32 \<Longrightarrow> unat (8 + word_of_nat n :: quint32) = 8 + n"
proof -
  assume a: "n + 8 < 2 ^ 32"
  have "(8 + word_of_nat n :: quint32) = word_of_nat (8 + n)" by simp
  moreover have "unat (word_of_nat (8 + n) :: quint32) = 8 + n"
    using a by (simp only: unat_of_nat) simp
  ultimately show ?thesis by simp
qed

lemma length_encode_frame: "length (encode_frame f) = 8 + length (snd f)"
  by (simp add: encode_frame_def length_frame_bytes)

lemma read_buffer_HandleMessage: "read_buffer (HandleMessage env data s) = read_buffer s"
  by (simp add: HandleMessage_def Let_def split: option.splits QJsonValue.splits)

lemma read_buffer_socket_disconnectFromServer:
  "read_buffer (socket_disconnectFromServer s) =
     (if socket_state s = UnconnectedState then read_buffer s else [])"
  by (simp add: socket_disconnectFromServer_def OnDisconnected_def ScheduleReconnect_def)

lemma ProcessIncomingData_round_encoded:
  assumes len: "length data + 8 < 2 ^ 32"
    and buf: "read_buffer s = encode_frame (opcode, data) @ rest"
    and close: "opcode = Opcode_Close \<longrightarrow> rest = []"
  shows "\<exists>s'. ProcessIncomingData_round env s = Some (s', (opcode, data)) \<and> read_buffer s' = rest"
proof -
  let ?len = "word_of_nat (length data) :: quint32"
  have l: "unat ?len = length data" using len by (intro unat_frame_len) simp
  have b: "read_buffer s = frame_bytes opcode ?len data @ rest"
    by (simp add: buf encode_frame_def)
  have d: "drop (unat (8 + ?len)) (read_buffer s) = rest"
    using unat_frame_size [OF len] by (simp add: b length_frame_bytes)
  show ?thesis
    unfolding ProcessIncomingData_round_frame [OF l b]
    using close
    by (simp add: Let_def d read_buffer_HandleMessage read_buffer_socket_disconnectFromServer
          socket_write_def)
qed

lemma ProcessIncomingData_loop_round:
  "ProcessIncomingData_round env s = Some (s', ev) \<Longrightarrow>
     ProcessIncomingData_loop env s evs = ProcessIncomingData_loop env s' (evs @ [ev])"
  by (subst ProcessIncomingData_loop.simps) simp

lemma ProcessIncomingData_loop_end:
  "ProcessIncomingData_round env s = None \<Longrightarrow> ProcessIncomingData_loop env s evs = Some (s, evs)"
  by (subst ProcessIncomingData_loop.simps) simp

lemma ProcessIncomingData_round_short:
  "length (read_buffer s) < 8 \<Longrightarrow> ProcessIncomingData_round env s = None"
  by (simp add: ProcessIncomingData_round_def)

lemma ProcessIncomingData_loop_frames:
  assumes "\<forall>f \<in> set fs. length (snd f) + 8 < 2 ^ 32"
    and "\<forall>f \<in> set (butlast fs). fst f \<noteq> Opcode_Close"
    and "read_buffer s = concat (map encode_frame fs)"
  shows "\<exists>s'. ProcessIncomingData_loop env s evs = Some (s', evs @ fs) \<and> read_buffer s' = []"
  using assms
proof (induction fs arbitrary: s evs)
  case Nil
  then have "ProcessIncomingData_round env s = None"
    by (simp add: ProcessIncomingData_round_short)
  then show ?case using Nil by (simp add: ProcessIncomingData_loop_end)
next
  case (Cons f fs)
  obtain opcode data where f: "f = (opcode, data)" by (cases f)
  have len: "length data + 8 < 2 ^ 32" using Cons.prems(1) f by simp
  have buf: "read_buffer s = encode_frame (opcode, data) @ concat (map encode_frame fs)"
    using Cons.prems(3) f by simp
  have close: "opcode = Opcode_Close \<longrightarrow> concat (map encode_frame fs) = []"
    using Cons.prems(2) f by (cases fs) auto
  obtain s1 where r: "ProcessIncomingData_round env s = Some (s1, (opcode, data))"
    and b1: "read_buffer s1 = concat (map encode_frame fs)"
    using ProcessIncomingData_round_encoded [OF len buf close] by blast
  have nc: "\<forall>f \<in> set (butlast fs). fst f \<noteq> Opcode_Close"
    using Cons.prems(2) by (cases fs) auto
  have "\<exists>s'. ProcessIncomingData_loop env s1 (evs @ [f]) = Some (s', (evs @ [f]) @ fs) \<and>
      read_buffer s' = []"
    using Cons.prems(1) nc b1 by (intro Cons.IH) auto
  then show ?case
    by (simp add: ProcessIncomingData_loop_round [OF r] f)
qed

lemma ProcessIncomingData_loop_stops:
  assumes "ProcessIncomingData_loop env s evs = Some y"
  shows "ProcessIncomingData_round env (fst y) = None"
  by (rule ProcessIncomingData_loop.raw_induct
        [where P = "\<lambda>env s evs y. ProcessIncomingData_round env (fst y) = None", OF _ assms])
     (auto split: option.splits)

lemma ProcessIncomingData_loop_stuck:
  assumes stuck: "\<And>s. read_buffer s = buf \<Longrightarrow>
      \<exists>s' ev. ProcessIncomingData_round env s = Some (s', ev) \<and> read_buffer s' = buf"
    and buf: "read_buffer s = buf"
  shows "ProcessIncomingData_loop env s evs = None"
proof (rule ccontr)
  assume "ProcessIncomingData_loop env s evs \<noteq> None"
  then obtain y where y: "ProcessIncomingData_loop env s evs = Some y" by blast
  have "env = env \<longrightarrow> read_buffer s \<noteq> buf"
  proof (rule ProcessIncomingData_loop.raw_induct
        [where P = "\<lambda>env' s evs y. env' = env \<longrightarrow> read_buffer s \<noteq> buf", OF _ y])
    fix loop env' s evs y
    assume IH: "\<And>e s evs y. loop e s evs = Some y \<Longrightarrow> e = env \<longrightarrow> read_buffer s \<noteq> buf"
      and eq: "(case ProcessIncomingData_round env' s of None \<Rightarrow> Some (s, evs)
                | Some (s', ev) \<Rightarrow> loop env' s' (evs @ [ev])) = Some y"
    show "env' = env \<longrightarrow> read_buffer s \<noteq> buf"
    proof (intro impI notI)
      assume e: "env' = env" and b: "read_buffer s = buf"
      obtain s' ev where r: "ProcessIncomingData_round env s = Some (s', ev)"
        and b': "read_buffer s' = buf"
        using stuck [OF b] by blast
      from eq r e have "loop env s' (evs @ [ev]) = Some y" by simp
      from IH [OF this] b' show False by simp
    qed
  qed
  with buf show False by simp
qed

subsection \<open>C1: frames that arrive together\<close>

text \<open>
  C1, as amended. When the receive buffer holds K complete frames one after the other,
  each shorter than \<open>2^32\<close> bytes with its 8-byte header and none but the last with the
  opcode Close, one run of the decode loop hands exactly these K frames to the
  \<^verbatim>\<open>switch\<close>, in the order of the buffer and each with its own payload, and leaves the
  buffer empty. This holds for every K, so for K of 2 and more.
\<close>

theorem decode_coalesced_frames:
  assumes "\<forall>f \<in> set fs. length (snd f) + 8 < 2 ^ 32"
    and "\<forall>f \<in> set (butlast fs). fst f \<noteq> Opcode_Close"
    and "read_buffer s = concat (map encode_frame fs)"
  shows "map_option snd (ProcessIncomingData_loop env s []) = Some fs \<and>
         map_option (read_buffer \<circ> fst) (ProcessIncomingData_loop env s []) = Some []"
proof -
  from ProcessIncomingData_loop_frames [OF assms, of env "[]"]
  obtain s' where "ProcessIncomingData_loop env s [] = Some (s', fs)" and "read_buffer s' = []"
    by auto
  then show ?thesis by simp
qed

text \<open>Three frames in one read on a connected socket: a Ping with two bytes of payload,
  a Frame with one, and a Close at the end.\<close>

theorem decode_coalesced_frames_witness:
  "length [1, 2 :: byte] + 8 < (2 :: nat) ^ 32 \<and> length [7 :: byte] + 8 < (2 :: nat) ^ 32 \<and>
   length ([] :: byte list) + 8 < (2 :: nat) ^ 32 \<and>
   Opcode_Ping \<noteq> Opcode_Close \<and> Opcode_Frame \<noteq> Opcode_Close \<and>
   map_option snd (ProcessIncomingData_loop env0
      ((DiscordRPC_new [])
         \<lparr>socket_state := ConnectedState, rpc_state := Connected,
          read_buffer := [3,0,0,0, 2,0,0,0, 1,2,  1,0,0,0, 1,0,0,0, 7,  2,0,0,0, 0,0,0,0]\<rparr>) []) =
     Some [(Opcode_Ping, [1, 2]), (Opcode_Frame, [7]), (Opcode_Close, [])] \<and>
   map_option (read_buffer \<circ> fst) (ProcessIncomingData_loop env0
      ((DiscordRPC_new [])
         \<lparr>socket_state := ConnectedState, rpc_state := Connected,
          read_buffer := [3,0,0,0, 2,0,0,0, 1,2,  1,0,0,0, 1,0,0,0, 7,  2,0,0,0, 0,0,0,0]\<rparr>) []) =
     Some []"
proof -
  have h1: "\<forall>f \<in> set [(Opcode_Ping, [1, 2]), (Opcode_Frame, [7 :: byte]), (Opcode_Close, [])].
      length (snd f) + 8 < 2 ^ 32"
    by simp
  have h2: "\<forall>f \<in> set (butlast [(Opcode_Ping, [1, 2]), (Opcode_Frame, [7 :: byte]), (Opcode_Close, [])]).
      fst f \<noteq> Opcode_Close"
    by simp
  have h3: "read_buffer ((DiscordRPC_new [])
         \<lparr>socket_state := ConnectedState, rpc_state := Connected,
          read_buffer := [3,0,0,0, 2,0,0,0, 1,2,  1,0,0,0, 1,0,0,0, 7,  2,0,0,0, 0,0,0,0]\<rparr>) =
      concat (map encode_frame [(Opcode_Ping, [1, 2]), (Opcode_Frame, [7]), (Opcode_Close, [])])"
    by (simp add: encode_frame_def frame_bytes_def le32_def)
  show ?thesis
    using decode_coalesced_frames [OF h1 h2 h3, of env0] by simp
qed

text \<open>
  C1 as stated, for every buffer of complete frames, fails when a Close frame is not the
  last: on a connected socket \<^verbatim>\<open>disconnectFromServer\<close> runs \<^verbatim>\<open>OnDisconnected\<close>,
  which clears the buffer, and the loop ends. A Close and a Ping in one read give one
  event, not two.
\<close>

theorem decode_coalesced_frames_counterexample:
  "map_option snd (ProcessIncomingData_loop env0
     ((DiscordRPC_new [])
        \<lparr>socket_state := ConnectedState, rpc_state := Connected,
         read_buffer := [2,0,0,0, 0,0,0,0,  3,0,0,0, 1,0,0,0, 5]\<rparr>) []) =
     Some [(Opcode_Close, [])]"
proof -
  let ?s = "(DiscordRPC_new [])
        \<lparr>socket_state := ConnectedState, rpc_state := Connected,
         read_buffer := [2,0,0,0, 0,0,0,0,  3,0,0,0, 1,0,0,0, 5]\<rparr>"
  let ?s' = "(DiscordRPC_new [])\<lparr>reconnect_timer := Some 500, reconnect_delay := 1000\<rparr>"
  have r: "ProcessIncomingData_round env0 ?s = Some (?s', (Opcode_Close, []))"
    by (simp add: ProcessIncomingData_round_def read_le32_def int32_def
          socket_disconnectFromServer_def OnDisconnected_def ScheduleReconnect_def
          DiscordRPC_new_def kReconnectMinDelayMs_def kReconnectMaxDelayMs_def Let_def)
  have e: "ProcessIncomingData_round env0 ?s' = None"
    by (simp add: ProcessIncomingData_round_def DiscordRPC_new_def)
  show ?thesis
    by (simp add: ProcessIncomingData_loop_round [OF r] ProcessIncomingData_loop_end [OF e])
qed

subsection \<open>C2: incomplete frames\<close>

text \<open>
  What holds of C2. A round on fewer than 8 bytes returns at once
  (\<open>ProcessIncomingData_round_short\<close>). A round on a complete header whose declared
  length is below \<open>2^31 - 8\<close> and exceeds the bytes that follow returns through
  \<^verbatim>\<open>return;  // Wait for more data\<close>. And whatever the buffer held, a run of the loop that
  ends leaves fewer than 8 bytes or fewer bytes than the header at the front of the buffer
  declares.
\<close>

lemma uint_less_of_unat: 
  assumes "unat (len :: quint32) < 2 ^ 31"
  shows "uint len < 2 ^ 31"
proof -
  have "int (unat len) < int (2 ^ 31)" using assms by (rule iffD2 [OF of_nat_less_iff])
  then show ?thesis by simp
qed

lemma sint_uint32: "sint (len :: quint32) = signed_take_bit 31 (uint len)"
proof -
  have "LENGTH(32) - Suc 0 = 31" by simp
  then show ?thesis using sint_uint [of len] by (simp only:)
qed

lemma sint_small: 
  assumes "unat (len :: quint32) < 2 ^ 31"
  shows "sint len = int (unat len)"
proof -
  have "signed_take_bit 31 (uint len) = uint len"
  proof (rule signed_take_bit_int_eq_self)
    have "- (2 ^ 31) \<le> (0 :: int)" by simp
    then show "- (2 ^ 31) \<le> uint len" using uint_ge_0 [of len] by (rule order_trans)
    show "uint len < 2 ^ 31" using assms by (rule uint_less_of_unat)
  qed
  then show ?thesis by (simp only: sint_uint32) simp
qed


lemma ProcessIncomingData_round_wait:
  assumes "8 \<le> length (read_buffer s)"
    and "8 + unat (read_le32 (drop 4 (read_buffer s))) < 2 ^ 31"
    and "length (read_buffer s) < 8 + unat (read_le32 (drop 4 (read_buffer s)))"
  shows "ProcessIncomingData_round env s = None"
proof -
  let ?len = "read_le32 (drop 4 (read_buffer s))"
  have "unat ?len < 2 ^ 31" using assms(2) by linarith
  then have s: "sint ?len = int (unat ?len)" by (rule sint_small)
  have "int (8 + unat ?len) < int (2 ^ 31)" using assms(2) by (rule iffD2 [OF of_nat_less_iff])
  then have lt: "8 + int (unat ?len) < 2 ^ 31" by simp
  have "- (2 ^ 31) \<le> (0 :: int)" by simp
  also have "0 \<le> 8 + int (unat ?len)" by simp
  finally have "int32 (8 + int (unat ?len)) = 8 + int (unat ?len)" using lt by (rule int32_id)
  moreover have "int (length (read_buffer s)) < int (8 + unat ?len)"
    using assms(3) by (rule iffD2 [OF of_nat_less_iff])
  ultimately have "int (length (read_buffer s)) < int32 (8 + sint ?len)"
    unfolding s by simp
  then show ?thesis
    by (simp add: ProcessIncomingData_round_def Let_def)
qed

lemma ProcessIncomingData_round_None:
  assumes "ProcessIncomingData_round env s = None"
  shows "length (read_buffer s) < 8 \<or>
         length (read_buffer s) < 8 + unat (read_le32 (drop 4 (read_buffer s)))"
proof (cases "8 \<le> length (read_buffer s)")
  case True
  let ?len = "read_le32 (drop 4 (read_buffer s))"
  from assms True have "int (length (read_buffer s)) < int32 (8 + sint ?len)"
    by (simp add: ProcessIncomingData_round_def Let_def split: if_splits)
  with int32_header_le [of ?len] show ?thesis by linarith
next
  case False
  then show ?thesis by simp
qed

lemma ProcessIncomingData_loop_rest:
  assumes "ProcessIncomingData_loop env s evs = Some (s', evs')"
  shows "length (read_buffer s') < 8 \<or>
         length (read_buffer s') < 8 + unat (read_le32 (drop 4 (read_buffer s')))"
  using ProcessIncomingData_loop_stops [OF assms] by (intro ProcessIncomingData_round_None) simp

text \<open>
  C2, where the code departs from it. The buffer holds 8 bytes: a header with opcode Ping
  and declared length \<open>0x80000000\<close>, and no payload at all.
  \<^verbatim>\<open>static_cast<int>(length)\<close> is negative, so
  \<^verbatim>\<open>read_buffer_.size() < header_size + static_cast<int>(length)\<close> is false and the loop
  does not wait: it takes the empty rest of the buffer for the payload, empties the buffer
  and answers the Ping. With the declared length \<open>0xFFFFFFF8\<close> the sum is 0, the loop
  does not wait either, \<^verbatim>\<open>remove\<close> takes nothing off the buffer, and the loop never
  ends. Both happen in every state of the object.
\<close>

theorem wait_for_payload_failing_input:
  "ProcessIncomingData_loop env (s\<lparr>read_buffer := [3,0,0,0, 0,0,0,0x80]\<rparr>) [] =
     Some (s\<lparr>read_buffer := [], socket_written := socket_written s @ [[4,0,0,0, 0,0,0,0x80]]\<rparr>,
           [(Opcode_Ping, [])]) \<and>
   ProcessIncomingData_loop env (s\<lparr>read_buffer := [4,0,0,0, 0xF8,0xFF,0xFF,0xFF]\<rparr>) [] = None"
proof
  have r1: "ProcessIncomingData_round env (s\<lparr>read_buffer := [3,0,0,0, 0,0,0,0x80]\<rparr>) =
     Some (s\<lparr>read_buffer := [], socket_written := socket_written s @ [[4,0,0,0, 0,0,0,0x80]]\<rparr>,
           (Opcode_Ping, []))"
    by (simp add: ProcessIncomingData_round_def read_le32_def int32_def socket_write_def
          frame_bytes_def le32_def Let_def)
  have r2: "ProcessIncomingData_round env
      (s\<lparr>read_buffer := [], socket_written := socket_written s @ [[4,0,0,0, 0,0,0,0x80]]\<rparr>) = None"
    by (simp add: ProcessIncomingData_round_def)
  show "ProcessIncomingData_loop env (s\<lparr>read_buffer := [3,0,0,0, 0,0,0,0x80]\<rparr>) [] =
     Some (s\<lparr>read_buffer := [], socket_written := socket_written s @ [[4,0,0,0, 0,0,0,0x80]]\<rparr>,
           [(Opcode_Ping, [])])"
    by (subst ProcessIncomingData_loop.simps, simp add: r1,
        subst ProcessIncomingData_loop.simps, simp add: r2)
next
  show "ProcessIncomingData_loop env (s\<lparr>read_buffer := [4,0,0,0, 0xF8,0xFF,0xFF,0xFF]\<rparr>) [] = None"
  proof (rule ProcessIncomingData_loop_stuck)
    show "read_buffer (s\<lparr>read_buffer := [4,0,0,0, 0xF8,0xFF,0xFF,0xFF]\<rparr>) =
        [4,0,0,0, 0xF8,0xFF,0xFF,0xFF]" by simp
    fix s' :: DiscordRPC
    assume b: "read_buffer s' = [4,0,0,0, 0xF8,0xFF,0xFF,0xFF]"
    have "ProcessIncomingData_round env s' = Some (s', (Opcode_Pong, []))"
      by (simp add: ProcessIncomingData_round_def b read_le32_def int32_def Let_def)
    then show "\<exists>s'' ev. ProcessIncomingData_round env s' = Some (s'', ev) \<and>
        read_buffer s'' = [4,0,0,0, 0xF8,0xFF,0xFF,0xFF]"
      using b by simp
  qed
qed

subsection \<open>C9: Ping and Pong\<close>

lemma ProcessIncomingData_round_Ping:
  assumes "length payload < 2 ^ 32"
    and "read_buffer s = encode_frame (Opcode_Ping, payload) @ rest"
  shows "ProcessIncomingData_round env s =
           Some (s\<lparr>read_buffer :=
                      drop (unat (8 + (word_of_nat (length payload) :: quint32))) (read_buffer s),
                   socket_written := socket_written s @ [encode_frame (Opcode_Pong, payload)]\<rparr>,
                 (Opcode_Ping, payload))"
proof -
  let ?len = "word_of_nat (length payload) :: quint32"
  have l: "unat ?len = length payload" using assms(1) by (rule unat_frame_len)
  have b: "read_buffer s = frame_bytes Opcode_Ping ?len payload @ rest"
    by (simp add: assms(2) encode_frame_def)
  show ?thesis
    unfolding ProcessIncomingData_round_frame [OF l b]
    by (simp add: socket_write_def encode_frame_def)
qed

lemma drop_encoded_frame:
  assumes "length payload + 8 < 2 ^ 32"
    and "read_buffer s = encode_frame (opcode, payload) @ rest"
  shows "drop (unat (8 + (word_of_nat (length payload) :: quint32))) (read_buffer s) = rest"
  using unat_frame_size [OF assms(1)] by (simp add: assms(2) length_encode_frame)

lemma ProcessIncomingData_Ping_then_wait:
  assumes "length payload + 8 < 2 ^ 32"
    and "read_buffer s = encode_frame (Opcode_Ping, payload) @ rest"
    and "length rest < 8"
  shows "ProcessIncomingData_loop env s evs =
           Some (s\<lparr>read_buffer := rest,
                   socket_written := socket_written s @ [encode_frame (Opcode_Pong, payload)]\<rparr>,
                 evs @ [(Opcode_Ping, payload)])"
proof -
  let ?s' = "s\<lparr>read_buffer := rest,
                socket_written := socket_written s @ [encode_frame (Opcode_Pong, payload)]\<rparr>"
  have lp: "length payload < 2 ^ 32" using assms(1) by linarith
  have r: "ProcessIncomingData_round env s = Some (?s', (Opcode_Ping, payload))"
    using ProcessIncomingData_round_Ping [OF lp assms(2), of env]
    by (simp add: drop_encoded_frame [OF assms(1,2)])
  have e: "ProcessIncomingData_round env ?s' = None"
    using assms(3) by (intro ProcessIncomingData_round_short) simp
  show ?thesis
    by (simp add: ProcessIncomingData_loop_round [OF r] ProcessIncomingData_loop_end [OF e])
qed

text \<open>
  C9. When the buffer starts with a complete Ping frame with payload P, in any state of
  the object, the round that decodes it passes exactly one more byte array to
  \<^verbatim>\<open>write\<close>: the Pong frame with the same length field and the same payload P. Nothing
  else changes but the buffer, so the connection state is as before. When the frame is
  shorter than \<open>2^32\<close> bytes and fewer than 8 bytes follow it, this is all the whole run
  does.
\<close>

theorem ping_answered_by_pong:
  assumes "length payload < 2 ^ 32"
    and "read_buffer s = encode_frame (Opcode_Ping, payload) @ rest"
  shows "ProcessIncomingData_round env s =
           Some (s\<lparr>read_buffer :=
                      drop (unat (8 + (word_of_nat (length payload) :: quint32))) (read_buffer s),
                   socket_written := socket_written s @ [encode_frame (Opcode_Pong, payload)]\<rparr>,
                 (Opcode_Ping, payload)) \<and>
         (length payload + 8 < 2 ^ 32 \<and> length rest < 8 \<longrightarrow>
            ProcessIncomingData env s =
              Some (s\<lparr>read_buffer := rest,
                      socket_written := socket_written s @ [encode_frame (Opcode_Pong, payload)]\<rparr>))"
  using ProcessIncomingData_round_Ping [OF assms, of env]
    ProcessIncomingData_Ping_then_wait [OF _ assms(2), of env "[]"]
  by (simp add: ProcessIncomingData_def)

text \<open>A Ping with the payload 9, 8, 7, followed by two bytes of the next header.\<close>

theorem ping_answered_by_pong_witness:
  "length [9, 8, 7 :: byte] < (2 :: nat) ^ 32 \<and>
   ProcessIncomingData_round env0 ((DiscordRPC_new [])\<lparr>read_buffer := [3,0,0,0, 3,0,0,0, 9,8,7, 1,0]\<rparr>) =
     Some ((DiscordRPC_new [])\<lparr>read_buffer := [1, 0], socket_written := [[4,0,0,0, 3,0,0,0, 9,8,7]]\<rparr>,
           (Opcode_Ping, [9, 8, 7])) \<and>
   ProcessIncomingData env0 ((DiscordRPC_new [])\<lparr>read_buffer := [3,0,0,0, 3,0,0,0, 9,8,7, 1,0]\<rparr>) =
     Some ((DiscordRPC_new [])\<lparr>read_buffer := [1, 0], socket_written := [[4,0,0,0, 3,0,0,0, 9,8,7]]\<rparr>)"
proof -
  have h1: "length [9, 8, 7 :: byte] < (2 :: nat) ^ 32" by simp
  have h2: "read_buffer ((DiscordRPC_new [])\<lparr>read_buffer := [3,0,0,0, 3,0,0,0, 9,8,7, 1,0]\<rparr>) =
      encode_frame (Opcode_Ping, [9, 8, 7]) @ [1, 0]"
    by (simp add: encode_frame_def frame_bytes_def le32_def)
  show ?thesis
    using ping_answered_by_pong [OF h1 h2, of env0]
    by (simp add: encode_frame_def frame_bytes_def le32_def DiscordRPC_new_def)
qed

subsection \<open>C10: frames after a Close\<close>

text \<open>
  C10, as amended. When the buffer starts with a complete Close frame and the socket is
  not unconnected, the round that decodes the frame calls \<^verbatim>\<open>disconnectFromServer\<close>,
  and \<^verbatim>\<open>OnDisconnected\<close> runs inside that call: the state is \<open>Disconnected\<close>, the
  receive buffer is cleared and the reconnect timer is armed. The \<^verbatim>\<open>break\<close> leaves only
  the \<^verbatim>\<open>switch\<close>, but the loop condition then finds an empty buffer, so the run ends
  with this round: whatever followed the Close frame in the buffer is discarded, no
  further frame is handed to the \<^verbatim>\<open>switch\<close>, and nothing is written (a Ping after
  the Close gets no Pong).
\<close>

theorem close_ends_pass:
  assumes "length payload < 2 ^ 32"
    and "read_buffer s = encode_frame (Opcode_Close, payload) @ rest"
    and "socket_state s \<noteq> UnconnectedState"
  shows "ProcessIncomingData_loop env s evs =
           Some (s\<lparr>socket_state := UnconnectedState, rpc_state := Disconnected, read_buffer := [],
                   reconnect_timer := Some (reconnect_delay s),
                   reconnect_delay := min (int32 (reconnect_delay s * 2)) kReconnectMaxDelayMs\<rparr>,
                 evs @ [(Opcode_Close, payload)]) \<and>
         map_option socket_written (ProcessIncomingData env s) = Some (socket_written s)"
proof -
  let ?len = "word_of_nat (length payload) :: quint32"
  let ?s' = "s\<lparr>socket_state := UnconnectedState, rpc_state := Disconnected, read_buffer := [],
               reconnect_timer := Some (reconnect_delay s),
               reconnect_delay := min (int32 (reconnect_delay s * 2)) kReconnectMaxDelayMs\<rparr>"
  have l: "unat ?len = length payload" using assms(1) by (rule unat_frame_len)
  have b: "read_buffer s = frame_bytes Opcode_Close ?len payload @ rest"
    by (simp add: assms(2) encode_frame_def)
  have r: "ProcessIncomingData_round env s = Some (?s', (Opcode_Close, payload))"
    unfolding ProcessIncomingData_round_frame [OF l b]
    using assms(3)
    by (simp add: socket_disconnectFromServer_def OnDisconnected_def ScheduleReconnect_def)
  have e: "ProcessIncomingData_round env ?s' = None"
    by (intro ProcessIncomingData_round_short) simp
  have go: "ProcessIncomingData_loop env s evs = Some (?s', evs @ [(Opcode_Close, payload)])" for evs
    by (simp add: ProcessIncomingData_loop_round [OF r] ProcessIncomingData_loop_end [OF e])
  show ?thesis
    using go [of evs] by (simp add: ProcessIncomingData_def go [of "[]"])
qed

text \<open>A Close with the payload 1 and, behind it, a Frame and a Ping, on a connected
  socket that has sent its handshake.\<close>

theorem close_ends_pass_witness:
  "length [1 :: byte] < (2 :: nat) ^ 32 \<and>
   socket_state ((DiscordRPC_new [])
        \<lparr>socket_state := ConnectedState, socket_written := [[0,0,0,0, 0,0,0,0]],
         rpc_state := SentHandshake,
         read_buffer := [2,0,0,0, 1,0,0,0, 1,  1,0,0,0, 0,0,0,0,  3,0,0,0, 0,0,0,0]\<rparr>)
     \<noteq> UnconnectedState \<and>
   ProcessIncomingData_loop env0
     ((DiscordRPC_new [])
        \<lparr>socket_state := ConnectedState, socket_written := [[0,0,0,0, 0,0,0,0]],
         rpc_state := SentHandshake,
         read_buffer := [2,0,0,0, 1,0,0,0, 1,  1,0,0,0, 0,0,0,0,  3,0,0,0, 0,0,0,0]\<rparr>) [] =
     Some ((DiscordRPC_new [])
             \<lparr>socket_written := [[0,0,0,0, 0,0,0,0]],
              reconnect_timer := Some 500, reconnect_delay := 1000\<rparr>,
           [(Opcode_Close, [1])]) \<and>
   map_option socket_written (ProcessIncomingData env0
     ((DiscordRPC_new [])
        \<lparr>socket_state := ConnectedState, socket_written := [[0,0,0,0, 0,0,0,0]],
         rpc_state := SentHandshake,
         read_buffer := [2,0,0,0, 1,0,0,0, 1,  1,0,0,0, 0,0,0,0,  3,0,0,0, 0,0,0,0]\<rparr>)) =
     Some [[0,0,0,0, 0,0,0,0]]"
proof -
  let ?s = "(DiscordRPC_new [])
        \<lparr>socket_state := ConnectedState, socket_written := [[0,0,0,0, 0,0,0,0]],
         rpc_state := SentHandshake,
         read_buffer := [2,0,0,0, 1,0,0,0, 1,  1,0,0,0, 0,0,0,0,  3,0,0,0, 0,0,0,0]\<rparr>"
  have h1: "length [1 :: byte] < (2 :: nat) ^ 32" by simp
  have h2: "read_buffer ?s =
      encode_frame (Opcode_Close, [1]) @ [1,0,0,0, 0,0,0,0,  3,0,0,0, 0,0,0,0]"
    by (simp add: encode_frame_def frame_bytes_def le32_def)
  have h3: "socket_state ?s \<noteq> UnconnectedState" by simp
  show ?thesis
    using close_ends_pass [OF h1 h2 h3, of env0 "[]"]
    by (simp add: DiscordRPC_new_def int32_def kReconnectMinDelayMs_def kReconnectMaxDelayMs_def)
qed

text \<open>
  C10 as stated fails: a Close and a Ping arrive in one read on a connected socket that
  has sent its handshake. After the run the buffer is empty, the state is
  \<open>Disconnected\<close>, and the handshake is still the only array written: the Ping was
  not dispatched and no Pong was written.
\<close>

theorem close_ends_pass_counterexample:
  "ProcessIncomingData env0
     ((DiscordRPC_new [])
        \<lparr>socket_state := ConnectedState, socket_written := [[0,0,0,0, 0,0,0,0]],
         rpc_state := Connected,
         read_buffer := [2,0,0,0, 0,0,0,0,  3,0,0,0, 1,0,0,0, 5]\<rparr>) =
     Some ((DiscordRPC_new [])
             \<lparr>socket_written := [[0,0,0,0, 0,0,0,0]],
              reconnect_timer := Some 500, reconnect_delay := 1000\<rparr>)"
proof -
  let ?s = "(DiscordRPC_new [])
        \<lparr>socket_state := ConnectedState, socket_written := [[0,0,0,0, 0,0,0,0]],
         rpc_state := Connected,
         read_buffer := [2,0,0,0, 0,0,0,0,  3,0,0,0, 1,0,0,0, 5]\<rparr>"
  let ?s' = "(DiscordRPC_new [])
             \<lparr>socket_written := [[0,0,0,0, 0,0,0,0]],
              reconnect_timer := Some 500, reconnect_delay := 1000\<rparr>"
  have r: "ProcessIncomingData_round env0 ?s = Some (?s', (Opcode_Close, []))"
    by (simp add: ProcessIncomingData_round_def read_le32_def int32_def
          socket_disconnectFromServer_def OnDisconnected_def ScheduleReconnect_def
          DiscordRPC_new_def kReconnectMinDelayMs_def kReconnectMaxDelayMs_def Let_def)
  have e: "ProcessIncomingData_round env0 ?s' = None"
    by (simp add: ProcessIncomingData_round_def DiscordRPC_new_def)
  show ?thesis
    by (simp add: ProcessIncomingData_def ProcessIncomingData_loop_round [OF r]
          ProcessIncomingData_loop_end [OF e])
qed

subsection \<open>C3: the activity of a presence with a name and a state\<close>

text \<open>
  C3, as amended. For a presence whose name and state are not empty and whose other
  fields are those of the default constructor, the activity object has exactly the keys
  \<open>type\<close> (0), \<open>status_display_type\<close> (0), \<open>name\<close>, \<open>state\<close> and \<open>instance\<close>
  (false): the default type 0 lies in the range 0 to 5 that
  \<^verbatim>\<open>if (presence.type >= 0 && presence.type <= 5)\<close> admits. There are no \<open>details\<close>,
  \<open>timestamps\<close>, \<open>assets\<close>, \<open>party\<close> or \<open>secrets\<close> keys. The second part is the
  whole document that \<^verbatim>\<open>CreatePresenceMessage\<close> prints.
\<close>

theorem presence_activity_keys:
  assumes "n \<noteq> []" and "st \<noteq> []"
  shows "CreatePresenceMessage_activity (DiscordPresence_default\<lparr>name := n, state := st\<rparr>) =
           [(''type'', JNumber 0), (''status_display_type'', JNumber 0),
            (''name'', JString n), (''state'', JString st), (''instance'', JBool False)] \<and>
         fst (CreatePresenceMessage env (DiscordPresence_default\<lparr>name := n, state := st\<rparr>) s) =
           toJson env (JObject
             [(''cmd'', JString ''SET_ACTIVITY''),
              (''nonce'', JString (QString_number (nonce s))),
              (''args'', JObject
                 [(''pid'', JNumber (getpid env)),
                  (''activity'', JObject
                     [(''type'', JNumber 0), (''status_display_type'', JNumber 0),
                      (''name'', JString n), (''state'', JString st),
                      (''instance'', JBool False)])])])"
proof -
  have a: "CreatePresenceMessage_activity (DiscordPresence_default\<lparr>name := n, state := st\<rparr>) =
           [(''type'', JNumber 0), (''status_display_type'', JNumber 0),
            (''name'', JString n), (''state'', JString st), (''instance'', JBool False)]"
    using assms by (simp add: CreatePresenceMessage_activity_def DiscordPresence_default_def)
  show ?thesis
    unfolding a by (simp add: CreatePresenceMessage_def a)
qed

text \<open>The sample: the name "Listening" and the state "Track - Artist", the dash being
  the three bytes of a UTF-8 em dash.\<close>

theorem presence_activity_keys_witness:
  "''Listening'' \<noteq> [] \<and> ''Track '' @ [CHR 0xE2, CHR 0x80, CHR 0x94] @ '' Artist'' \<noteq> [] \<and>
   CreatePresenceMessage_activity
     (DiscordPresence_default
        \<lparr>name := ''Listening'', state := ''Track '' @ [CHR 0xE2, CHR 0x80, CHR 0x94] @ '' Artist''\<rparr>) =
     [(''type'', JNumber 0), (''status_display_type'', JNumber 0),
      (''name'', JString ''Listening''),
      (''state'', JString (''Track '' @ [CHR 0xE2, CHR 0x80, CHR 0x94] @ '' Artist'')),
      (''instance'', JBool False)]"
proof -
  have h1: "''Listening'' \<noteq> []" by simp
  have h2: "''Track '' @ [CHR 0xE2, CHR 0x80, CHR 0x94] @ '' Artist'' \<noteq> []" by simp
  show ?thesis
    using presence_activity_keys [OF h1 h2, THEN conjunct1] by simp
qed

text \<open>C3 as stated fails on the sample: the keys of the activity are not only
  \<open>name\<close>, \<open>state\<close> and \<open>instance\<close>, since \<open>type\<close> is among them.\<close>

theorem presence_activity_keys_counterexample:
  "fst ` set (CreatePresenceMessage_activity
      (DiscordPresence_default
         \<lparr>name := ''Listening'', state := ''Track '' @ [CHR 0xE2, CHR 0x80, CHR 0x94] @ '' Artist''\<rparr>))
   \<noteq> {''name'', ''state'', ''instance''}"
proof -
  have "''type'' \<notin> {''name'', ''state'', ''instance''}" by simp
  moreover have "''type'' \<in> fst ` set (CreatePresenceMessage_activity
      (DiscordPresence_default
         \<lparr>name := ''Listening'', state := ''Track '' @ [CHR 0xE2, CHR 0x80, CHR 0x94] @ '' Artist''\<rparr>))"
    by (simp add: CreatePresenceMessage_activity_def DiscordPresence_default_def)
  ultimately show ?thesis by metis
qed

subsection \<open>C8: presence updates outside the state Connected\<close>

text \<open>
  C8. Unless the state is \<open>Connected\<close>, \<^verbatim>\<open>UpdatePresence\<close> and \<^verbatim>\<open>ClearPresence\<close>
  return the object as it was: nothing is passed to \<^verbatim>\<open>write\<close>, and the connection
  state, the nonce, the receive buffer and the delay are unchanged.
\<close>

theorem presence_dropped_unless_Connected:
  assumes "rpc_state s \<noteq> Connected"
  shows "UpdatePresence env presence s = s \<and> ClearPresence env s = s"
  using assms by (simp add: UpdatePresence_def ClearPresence_def)

theorem presence_dropped_unless_Connected_witness:
  "rpc_state ((DiscordRPC_new ''1234'')\<lparr>rpc_state := SentHandshake, socket_state := ConnectedState\<rparr>)
     \<noteq> Connected \<and>
   UpdatePresence env0 (DiscordPresence_default\<lparr>name := ''Listening''\<rparr>)
     ((DiscordRPC_new ''1234'')\<lparr>rpc_state := SentHandshake, socket_state := ConnectedState\<rparr>) =
     (DiscordRPC_new ''1234'')\<lparr>rpc_state := SentHandshake, socket_state := ConnectedState\<rparr> \<and>
   ClearPresence env0
     ((DiscordRPC_new ''1234'')\<lparr>rpc_state := SentHandshake, socket_state := ConnectedState\<rparr>) =
     (DiscordRPC_new ''1234'')\<lparr>rpc_state := SentHandshake, socket_state := ConnectedState\<rparr>"
proof -
  have h: "rpc_state ((DiscordRPC_new ''1234'')\<lparr>rpc_state := SentHandshake, socket_state := ConnectedState\<rparr>)
     \<noteq> Connected" by simp
  show ?thesis
    using presence_dropped_unless_Connected [OF h, of env0 "DiscordPresence_default\<lparr>name := ''Listening''\<rparr>"] h
    by simp
qed

subsection \<open>C7: the READY message\<close>

lemma ready_message_bytes:
  "ready_message =
     [123,34,99,109,100,34,58,34,68,73,83,80,65,84,67,72,34,44,
      34,101,118,116,34,58,34,82,69,65,68,89,34,125]"
  by (simp add: ready_message_def ready_text_def quoted_def)

lemma HandleMessage_ready:
  assumes "fromJson env data = Some (JObject obj)"
    and "map_of obj ''cmd'' = Some (JString ''DISPATCH'')"
    and "map_of obj ''evt'' = Some (JString ''READY'')"
  shows "HandleMessage env data s =
           (if rpc_state s = SentHandshake then s\<lparr>rpc_state := Connected\<rparr> else s)"
  using assms by (simp add: HandleMessage_def)

text \<open>
  C7. Let the payload parse as a JSON object whose \<open>cmd\<close> is the string DISPATCH and
  whose \<open>evt\<close> is the string READY. Then \<^verbatim>\<open>HandleMessage\<close> sets the state to
  \<open>Connected\<close> when it is \<open>SentHandshake\<close> and changes nothing in any other state;
  and the round that decodes a Frame-opcode frame with this payload does just that, and
  takes the frame off the buffer.
\<close>

theorem ready_enters_Connected:
  assumes "fromJson env data = Some (JObject obj)"
    and "map_of obj ''cmd'' = Some (JString ''DISPATCH'')"
    and "map_of obj ''evt'' = Some (JString ''READY'')"
  shows "HandleMessage env data s =
           (if rpc_state s = SentHandshake then s\<lparr>rpc_state := Connected\<rparr> else s) \<and>
         (length data + 8 < 2 ^ 32 \<and> read_buffer s = encode_frame (Opcode_Frame, data) @ rest \<longrightarrow>
            ProcessIncomingData_round env s =
              Some (if rpc_state s = SentHandshake
                    then s\<lparr>read_buffer := rest, rpc_state := Connected\<rparr>
                    else s\<lparr>read_buffer := rest\<rparr>, (Opcode_Frame, data)))"
proof -
  have "ProcessIncomingData_round env s =
      Some (if rpc_state s = SentHandshake
            then s\<lparr>read_buffer := rest, rpc_state := Connected\<rparr>
            else s\<lparr>read_buffer := rest\<rparr>, (Opcode_Frame, data))"
    if len: "length data + 8 < 2 ^ 32" and buf: "read_buffer s = encode_frame (Opcode_Frame, data) @ rest"
  proof -
    let ?len = "word_of_nat (length data) :: quint32"
    have l: "unat ?len = length data" using len by (intro unat_frame_len) simp
    have b: "read_buffer s = frame_bytes Opcode_Frame ?len data @ rest"
      by (simp add: buf encode_frame_def)
    show ?thesis
      unfolding ProcessIncomingData_round_frame [OF l b]
      by (simp add: drop_encoded_frame [OF len buf] HandleMessage_ready [OF assms])
  qed
  then show ?thesis using HandleMessage_ready [OF assms, of s] by blast
qed

text \<open>The READY message in each of the four states, and as a frame in the buffer.\<close>

theorem ready_enters_Connected_witness:
  "fromJson env0 ready_message = Some ready_document \<and>
   HandleMessage env0 ready_message ((DiscordRPC_new [])\<lparr>rpc_state := SentHandshake\<rparr>) =
     (DiscordRPC_new [])\<lparr>rpc_state := Connected\<rparr> \<and>
   HandleMessage env0 ready_message ((DiscordRPC_new [])\<lparr>rpc_state := Disconnected\<rparr>) =
     (DiscordRPC_new [])\<lparr>rpc_state := Disconnected\<rparr> \<and>
   HandleMessage env0 ready_message ((DiscordRPC_new [])\<lparr>rpc_state := Connecting\<rparr>) =
     (DiscordRPC_new [])\<lparr>rpc_state := Connecting\<rparr> \<and>
   HandleMessage env0 ready_message ((DiscordRPC_new [])\<lparr>rpc_state := Connected\<rparr>) =
     (DiscordRPC_new [])\<lparr>rpc_state := Connected\<rparr> \<and>
   length ready_message + 8 < (2 :: nat) ^ 32 \<and>
   ProcessIncomingData_round env0
     ((DiscordRPC_new [])
        \<lparr>rpc_state := SentHandshake, read_buffer := [1,0,0,0, 32,0,0,0] @ ready_message\<rparr>) =
     Some ((DiscordRPC_new [])\<lparr>rpc_state := Connected, read_buffer := []\<rparr>,
           (Opcode_Frame, ready_message))"
proof -
  have h1: "fromJson env0 ready_message =
      Some (JObject [(''cmd'', JString ''DISPATCH''), (''evt'', JString ''READY'')])"
    by (simp add: env0_def ready_document_def)
  have h2: "map_of [(''cmd'', JString ''DISPATCH''), (''evt'', JString ''READY'')] ''cmd'' =
      Some (JString ''DISPATCH'')" by simp
  have h3: "map_of [(''cmd'', JString ''DISPATCH''), (''evt'', JString ''READY'')] ''evt'' =
      Some (JString ''READY'')" by simp
  have h4: "length ready_message + 8 < (2 :: nat) ^ 32 \<and>
      read_buffer ((DiscordRPC_new [])
        \<lparr>rpc_state := SentHandshake, read_buffer := [1,0,0,0, 32,0,0,0] @ ready_message\<rparr>) =
      encode_frame (Opcode_Frame, ready_message) @ []"
    by (simp add: encode_frame_def frame_bytes_def le32_def ready_message_bytes)
  note t = ready_enters_Connected [OF h1 h2 h3]
  note a = t [THEN conjunct1]
  note b = t [THEN conjunct2, THEN mp, OF h4]
  show ?thesis
    using a [of "(DiscordRPC_new [])\<lparr>rpc_state := SentHandshake\<rparr>"]
      a [of "(DiscordRPC_new [])\<lparr>rpc_state := Disconnected\<rparr>"]
      a [of "(DiscordRPC_new [])\<lparr>rpc_state := Connecting\<rparr>"]
      a [of "(DiscordRPC_new [])\<lparr>rpc_state := Connected\<rparr>"]
      b h1 h4
    by (simp add: ready_document_def)
qed

subsection \<open>C6: the reconnect delay\<close>

lemma ScheduleReconnect_delay:
  assumes "0 < reconnect_delay s" and "reconnect_delay s \<le> kReconnectMaxDelayMs"
  shows "reconnect_delay (ScheduleReconnect s) = min (reconnect_delay s * 2) kReconnectMaxDelayMs"
proof -
  have "reconnect_delay s * 2 \<le> 120000" using assms(2) by (simp add: kReconnectMaxDelayMs_def)
  then have "reconnect_delay s * 2 < 2 ^ 31" by simp
  moreover have "- (2 ^ 31) \<le> reconnect_delay s * 2" using assms(1) by simp
  ultimately have "int32 (reconnect_delay s * 2) = reconnect_delay s * 2" by (intro int32_id)
  then show ?thesis by (simp add: ScheduleReconnect_def)
qed

lemma ConnectToDiscord_failed:
  assumes "rpc_state s = Disconnected" and "\<not> connect_candidates attempts"
  shows "ConnectToDiscord attempts s =
           ScheduleReconnect (s\<lparr>socket_state := UnconnectedState, rpc_state := Disconnected\<rparr>)"
  using assms by (simp add: ConnectToDiscord_def Let_def)

lemma min_double_power:
  assumes "0 < (d :: int)" and "0 < c"
  shows "min (min (d * 2) c * 2 ^ n) c = min (d * 2 ^ Suc n) c"
proof (cases "d * 2 \<le> c")
  case True
  then show ?thesis by (simp add: min_def mult.assoc)
next
  case False
  have p: "(1 :: int) \<le> 2 ^ n" by simp
  have "c * 1 \<le> c * 2 ^ n" using assms(2) p by (intro mult_left_mono) auto
  then have a: "c \<le> c * 2 ^ n" by simp
  have "d * 2 * 1 \<le> d * 2 * 2 ^ n" using assms(1) p by (intro mult_left_mono) auto
  then have b: "c < d * 2 ^ Suc n" using False by (simp add: mult.assoc)
  show ?thesis using False a b by (simp add: min_def)
qed

lemma failed_attempts_delay:
  assumes "rpc_state s = Disconnected"
    and "0 < reconnect_delay s" and "reconnect_delay s \<le> kReconnectMaxDelayMs"
    and "\<forall>a \<in> set as. \<not> connect_candidates a"
  shows "reconnect_delay (fold ConnectToDiscord as s) =
           min (reconnect_delay s * 2 ^ length as) kReconnectMaxDelayMs"
  using assms
proof (induction as arbitrary: s)
  case Nil
  then show ?case by simp
next
  case (Cons a as)
  let ?s' = "ConnectToDiscord a s"
  have f: "?s' = ScheduleReconnect (s\<lparr>socket_state := UnconnectedState, rpc_state := Disconnected\<rparr>)"
    using Cons.prems(1,4) by (intro ConnectToDiscord_failed) auto
  have d: "reconnect_delay ?s' = min (reconnect_delay s * 2) kReconnectMaxDelayMs"
    unfolding f using Cons.prems(2,3) by (subst ScheduleReconnect_delay) auto
  have st: "rpc_state ?s' = Disconnected" unfolding f by (simp add: ScheduleReconnect_def)
  have pos: "0 < reconnect_delay ?s'"
    unfolding d using Cons.prems(2) by (simp add: kReconnectMaxDelayMs_def)
  have le: "reconnect_delay ?s' \<le> kReconnectMaxDelayMs" unfolding d by simp
  have "reconnect_delay (fold ConnectToDiscord as ?s') =
      min (reconnect_delay ?s' * 2 ^ length as) kReconnectMaxDelayMs"
    using st pos le Cons.prems(4) by (intro Cons.IH) auto
  also have "\<dots> = min (reconnect_delay s * 2 ^ Suc (length as)) kReconnectMaxDelayMs"
    unfolding d using Cons.prems(2) by (intro min_double_power) (auto simp: kReconnectMaxDelayMs_def)
  finally show ?case by simp
qed

text \<open>
  C6. A connection failure is a connection attempt in state \<open>Disconnected\<close> in which
  no candidate connects, or the loss of the connection (\<^verbatim>\<open>OnDisconnected\<close>); each
  calls \<^verbatim>\<open>ScheduleReconnect\<close> once. Starting from the floor
  \<open>kReconnectMinDelayMs\<close>, after n failed attempts in a row the stored delay is the
  minimum of floor times \<open>2^n\<close> and the ceiling \<open>kReconnectMaxDelayMs\<close>; the same holds
  when the first of the n + 1 failures is a lost connection. And \<^verbatim>\<open>OnConnected\<close>, the
  slot of a successful connection, stores the floor again.
\<close>

theorem reconnect_delay_doubles:
  "(rpc_state s = Disconnected \<and> reconnect_delay s = kReconnectMinDelayMs \<and>
      (\<forall>a \<in> set as. \<not> connect_candidates a) \<longrightarrow>
      reconnect_delay (fold ConnectToDiscord as s) =
        min (kReconnectMinDelayMs * 2 ^ length as) kReconnectMaxDelayMs) \<and>
   (reconnect_delay s = kReconnectMinDelayMs \<and> (\<forall>a \<in> set as. \<not> connect_candidates a) \<longrightarrow>
      reconnect_delay (fold ConnectToDiscord as (OnDisconnected s)) =
        min (kReconnectMinDelayMs * 2 ^ (length as + 1)) kReconnectMaxDelayMs) \<and>
   reconnect_delay (OnConnected env s) = kReconnectMinDelayMs"
proof (intro conjI impI)
  assume a: "rpc_state s = Disconnected \<and> reconnect_delay s = kReconnectMinDelayMs \<and>
      (\<forall>a \<in> set as. \<not> connect_candidates a)"
  then have "reconnect_delay (fold ConnectToDiscord as s) =
      min (reconnect_delay s * 2 ^ length as) kReconnectMaxDelayMs"
    by (intro failed_attempts_delay) (auto simp: kReconnectMinDelayMs_def kReconnectMaxDelayMs_def)
  then show "reconnect_delay (fold ConnectToDiscord as s) =
      min (kReconnectMinDelayMs * 2 ^ length as) kReconnectMaxDelayMs"
    using a by simp
next
  assume a: "reconnect_delay s = kReconnectMinDelayMs \<and> (\<forall>a \<in> set as. \<not> connect_candidates a)"
  let ?s0 = "s\<lparr>rpc_state := Disconnected, read_buffer := []\<rparr>"
  have o: "OnDisconnected s = ScheduleReconnect ?s0" by (simp add: OnDisconnected_def)
  have d: "reconnect_delay (OnDisconnected s) = min (kReconnectMinDelayMs * 2) kReconnectMaxDelayMs"
    unfolding o using a
    by (subst ScheduleReconnect_delay) (auto simp: kReconnectMinDelayMs_def kReconnectMaxDelayMs_def)
  have "reconnect_delay (fold ConnectToDiscord as (OnDisconnected s)) =
      min (reconnect_delay (OnDisconnected s) * 2 ^ length as) kReconnectMaxDelayMs"
  proof (rule failed_attempts_delay)
    show "rpc_state (OnDisconnected s) = Disconnected"
      by (simp add: OnDisconnected_def ScheduleReconnect_def)
    show "0 < reconnect_delay (OnDisconnected s)"
      unfolding d by (simp add: kReconnectMinDelayMs_def kReconnectMaxDelayMs_def)
    show "reconnect_delay (OnDisconnected s) \<le> kReconnectMaxDelayMs"
      unfolding d by simp
    show "\<forall>a \<in> set as. \<not> connect_candidates a" using a by simp
  qed
  also have "\<dots> = min (kReconnectMinDelayMs * 2 ^ Suc (length as)) kReconnectMaxDelayMs"
    unfolding d by (intro min_double_power) (auto simp: kReconnectMinDelayMs_def kReconnectMaxDelayMs_def)
  finally show "reconnect_delay (fold ConnectToDiscord as (OnDisconnected s)) =
      min (kReconnectMinDelayMs * 2 ^ (length as + 1)) kReconnectMaxDelayMs"
    by simp
next
  show "reconnect_delay (OnConnected env s) = kReconnectMinDelayMs"
    by (simp add: OnConnected_def SendHandshake_def socket_write_def Let_def)
qed

text \<open>Three failures give 4000 ms, eight give the ceiling, a lost connection and two
  failed attempts give 4000 ms, and a connection after three failures gives 500 ms.\<close>

theorem reconnect_delay_doubles_witness:
  "rpc_state (DiscordRPC_new []) = Disconnected \<and>
   reconnect_delay (DiscordRPC_new []) = kReconnectMinDelayMs \<and>
   \<not> connect_candidates [False, False] \<and> \<not> connect_candidates [] \<and>
   reconnect_delay (fold ConnectToDiscord [[False, False], [], [False, False]] (DiscordRPC_new [])) = 4000 \<and>
   reconnect_delay (fold ConnectToDiscord
      [[False, False], [], [], [], [], [], [], [False, False]] (DiscordRPC_new [])) = 60000 \<and>
   reconnect_delay (fold ConnectToDiscord [[False, False], []]
      (OnDisconnected ((DiscordRPC_new [])\<lparr>rpc_state := Connected, socket_state := ConnectedState\<rparr>))) = 4000 \<and>
   reconnect_delay (OnConnected env0
      (fold ConnectToDiscord [[False, False], [], [False, False]] (DiscordRPC_new []))) = 500"
proof -
  have h1: "rpc_state (DiscordRPC_new []) = Disconnected \<and>
      reconnect_delay (DiscordRPC_new []) = kReconnectMinDelayMs \<and>
      (\<forall>a \<in> set [[False, False], [], [False, False]]. \<not> connect_candidates a)"
    by (simp add: DiscordRPC_new_def)
  have h2: "rpc_state (DiscordRPC_new []) = Disconnected \<and>
      reconnect_delay (DiscordRPC_new []) = kReconnectMinDelayMs \<and>
      (\<forall>a \<in> set [[False, False], [], [], [], [], [], [], [False, False]]. \<not> connect_candidates a)"
    by (simp add: DiscordRPC_new_def)
  have h3: "reconnect_delay ((DiscordRPC_new [])\<lparr>rpc_state := Connected, socket_state := ConnectedState\<rparr>) =
      kReconnectMinDelayMs \<and> (\<forall>a \<in> set [[False, False], []]. \<not> connect_candidates a)"
    by (simp add: DiscordRPC_new_def)
  note a = reconnect_delay_doubles [THEN conjunct1, THEN mp, OF h1]
  note b = reconnect_delay_doubles [THEN conjunct1, THEN mp, OF h2]
  note c = reconnect_delay_doubles [THEN conjunct2, THEN conjunct1, THEN mp, OF h3]
  note d = reconnect_delay_doubles [THEN conjunct2, THEN conjunct2, of env0
      "fold ConnectToDiscord [[False, False], [], [False, False]] (DiscordRPC_new [])"]
  show ?thesis
    using a b c d h1
    by (simp add: kReconnectMinDelayMs_def kReconnectMaxDelayMs_def)
qed

subsection \<open>C4: where the delay is reset\<close>

lemma HandleMessage_delay: "reconnect_delay (HandleMessage env data s) = reconnect_delay s"
  by (simp add: HandleMessage_def Let_def split: option.splits QJsonValue.splits)

lemma HandleMessage_state:
  "rpc_state (HandleMessage env data s) = rpc_state s \<or>
   rpc_state s = SentHandshake \<and> rpc_state (HandleMessage env data s) = Connected"
  by (simp add: HandleMessage_def Let_def split: option.splits QJsonValue.splits)

lemma ProcessIncomingData_round_delay:
  assumes "ProcessIncomingData_round env s = Some (s', ev)"
    and inv: "rpc_state s = SentHandshake \<or> rpc_state s = Connected \<longrightarrow>
         reconnect_delay s = kReconnectMinDelayMs"
  shows "rpc_state s' = SentHandshake \<or> rpc_state s' = Connected \<longrightarrow>
         reconnect_delay s' = kReconnectMinDelayMs"
proof -
  let ?len = "read_le32 (drop 4 (read_buffer s))"
  let ?data = "take (unat ?len) (drop (nat 8) (read_buffer s))"
  let ?s1 = "s\<lparr>read_buffer := drop (unat (word_of_int 8 + ?len)) (read_buffer s)\<rparr>"
  from assms(1) have
    "s' = HandleMessage env ?data ?s1 \<or> s' = socket_disconnectFromServer ?s1 \<or>
     s' = socket_write (frame_bytes Opcode_Pong ?len ?data) ?s1 \<or> s' = ?s1"
    by (auto simp: ProcessIncomingData_round_def Let_def split: if_splits)
  then show ?thesis
  proof (elim disjE)
    assume "s' = HandleMessage env ?data ?s1"
    then show ?thesis
      using HandleMessage_delay [of env ?data ?s1] HandleMessage_state [of env ?data ?s1] inv
      by auto
  next
    assume "s' = socket_disconnectFromServer ?s1"
    then show ?thesis
      using inv
      by (simp add: socket_disconnectFromServer_def OnDisconnected_def ScheduleReconnect_def)
  next
    assume "s' = socket_write (frame_bytes Opcode_Pong ?len ?data) ?s1"
    then show ?thesis using inv by (simp add: socket_write_def)
  next
    assume "s' = ?s1"
    then show ?thesis using inv by simp
  qed
qed

lemma ProcessIncomingData_loop_delay:
  assumes "ProcessIncomingData_loop env s evs = Some y"
    and "rpc_state s = SentHandshake \<or> rpc_state s = Connected \<longrightarrow>
         reconnect_delay s = kReconnectMinDelayMs"
  shows "rpc_state (fst y) = SentHandshake \<or> rpc_state (fst y) = Connected \<longrightarrow>
         reconnect_delay (fst y) = kReconnectMinDelayMs"
proof -
  have "(rpc_state s = SentHandshake \<or> rpc_state s = Connected \<longrightarrow>
          reconnect_delay s = kReconnectMinDelayMs) \<longrightarrow>
        (rpc_state (fst y) = SentHandshake \<or> rpc_state (fst y) = Connected \<longrightarrow>
          reconnect_delay (fst y) = kReconnectMinDelayMs)"
  proof (rule ProcessIncomingData_loop.raw_induct
      [where P = "\<lambda>env s evs y.
        (rpc_state s = SentHandshake \<or> rpc_state s = Connected \<longrightarrow>
          reconnect_delay s = kReconnectMinDelayMs) \<longrightarrow>
        (rpc_state (fst y) = SentHandshake \<or> rpc_state (fst y) = Connected \<longrightarrow>
          reconnect_delay (fst y) = kReconnectMinDelayMs)", OF _ assms(1)])
    fix loop env s evs y
    assume IH: "\<And>e s evs y. loop e s evs = Some y \<Longrightarrow>
        (rpc_state s = SentHandshake \<or> rpc_state s = Connected \<longrightarrow>
          reconnect_delay s = kReconnectMinDelayMs) \<longrightarrow>
        (rpc_state (fst y) = SentHandshake \<or> rpc_state (fst y) = Connected \<longrightarrow>
          reconnect_delay (fst y) = kReconnectMinDelayMs)"
      and eq: "(case ProcessIncomingData_round env s of None \<Rightarrow> Some (s, evs)
                | Some (s', ev) \<Rightarrow> loop env s' (evs @ [ev])) = Some y"
    show "(rpc_state s = SentHandshake \<or> rpc_state s = Connected \<longrightarrow>
          reconnect_delay s = kReconnectMinDelayMs) \<longrightarrow>
        (rpc_state (fst y) = SentHandshake \<or> rpc_state (fst y) = Connected \<longrightarrow>
          reconnect_delay (fst y) = kReconnectMinDelayMs)"
    proof (cases "ProcessIncomingData_round env s")
      case None
      with eq show ?thesis by auto
    next
      case (Some p)
      obtain s' ev where p: "p = (s', ev)" by (cases p)
      from eq Some p have l: "loop env s' (evs @ [ev]) = Some y" by simp
      from Some p have r: "ProcessIncomingData_round env s = Some (s', ev)" by simp
      show ?thesis
      proof
        assume "rpc_state s = SentHandshake \<or> rpc_state s = Connected \<longrightarrow>
          reconnect_delay s = kReconnectMinDelayMs"
        from ProcessIncomingData_round_delay [OF r this] IH [OF l]
        show "rpc_state (fst y) = SentHandshake \<or> rpc_state (fst y) = Connected \<longrightarrow>
          reconnect_delay (fst y) = kReconnectMinDelayMs"
          by blast
      qed
    qed
  qed
  with assms(2) show ?thesis by blast
qed

lemma ScheduleReconnect_state: "rpc_state (ScheduleReconnect s) = rpc_state s"
  by (simp add: ScheduleReconnect_def)

lemma step_delay:
  assumes "step env e s = Some s'"
    and "rpc_state s = SentHandshake \<or> rpc_state s = Connected \<longrightarrow>
         reconnect_delay s = kReconnectMinDelayMs"
  shows "rpc_state s' = SentHandshake \<or> rpc_state s' = Connected \<longrightarrow>
         reconnect_delay s' = kReconnectMinDelayMs"
proof (cases e)
  case (Socket_readyRead chunk)
  let ?s0 = "s\<lparr>read_buffer := read_buffer s @ chunk\<rparr>"
  from assms(1) Socket_readyRead obtain y where
    y: "ProcessIncomingData_loop env ?s0 [] = Some y" and s': "s' = fst y"
    by (auto simp: OnReadyRead_def ProcessIncomingData_def)
  have "rpc_state ?s0 = SentHandshake \<or> rpc_state ?s0 = Connected \<longrightarrow>
      reconnect_delay ?s0 = kReconnectMinDelayMs"
    using assms(2) by simp
  from ProcessIncomingData_loop_delay [OF y this] show ?thesis by (simp add: s')
next
  case (Call_Initialize attempts)
  with assms show ?thesis
    by (auto simp: Initialize_def ConnectToDiscord_def ScheduleReconnect_def Let_def
        split: if_splits)
next
  case Call_Shutdown
  with assms(1) have "s' = Shutdown s" by simp
  then have "rpc_state s' = Disconnected" by (simp add: Shutdown_def Let_def)
  then show ?thesis by simp
next
  case (Call_UpdatePresence presence)
  with assms show ?thesis
    by (auto simp: UpdatePresence_def CreatePresenceMessage_def SendFrame_def socket_write_def
        Let_def split: if_splits)
next
  case Call_ClearPresence
  with assms show ?thesis
    by (auto simp: ClearPresence_def UpdatePresence_def CreatePresenceMessage_def SendFrame_def
        socket_write_def Let_def split: if_splits)
next
  case Socket_connected
  with assms show ?thesis
    by (auto simp: OnConnected_def SendHandshake_def socket_write_def Let_def split: if_splits)
next
  case Socket_disconnected
  with assms show ?thesis
    by (auto simp: OnDisconnected_def ScheduleReconnect_def split: if_splits)
next
  case Socket_errorOccurred
  with assms show ?thesis by (auto simp: OnError_def)
next
  case (Timer_timeout attempts)
  with assms show ?thesis
    by (auto simp: OnReconnectTimer_def ConnectToDiscord_def ScheduleReconnect_def Let_def
        split: if_splits option.splits)
qed

lemma run_delay:
  assumes "run env es s = Some s'"
    and "rpc_state s = SentHandshake \<or> rpc_state s = Connected \<longrightarrow>
         reconnect_delay s = kReconnectMinDelayMs"
  shows "rpc_state s' = SentHandshake \<or> rpc_state s' = Connected \<longrightarrow>
         reconnect_delay s' = kReconnectMinDelayMs"
  using assms
proof (induction es arbitrary: s)
  case Nil
  then show ?case by simp
next
  case (Cons e es)
  from Cons.prems(1) obtain s1 where s1: "step env e s = Some s1" and r: "run env es s1 = Some s'"
    by (auto split: option.splits)
  from step_delay [OF s1 Cons.prems(2)] r show ?case by (rule Cons.IH [rotated])
qed


lemma ProcessIncomingData_Frame_then_wait:
  assumes "length data + 8 < 2 ^ 32"
    and "read_buffer s = encode_frame (Opcode_Frame, data) @ rest"
    and "length rest < 8"
  shows "ProcessIncomingData_loop env s evs =
           Some (HandleMessage env data (s\<lparr>read_buffer := rest\<rparr>), evs @ [(Opcode_Frame, data)])"
proof -
  let ?len = "word_of_nat (length data) :: quint32"
  let ?s' = "HandleMessage env data (s\<lparr>read_buffer := rest\<rparr>)"
  have l: "unat ?len = length data" using assms(1) by (intro unat_frame_len) simp
  have b: "read_buffer s = frame_bytes Opcode_Frame ?len data @ rest"
    by (simp add: assms(2) encode_frame_def)
  have r: "ProcessIncomingData_round env s = Some (?s', (Opcode_Frame, data))"
    unfolding ProcessIncomingData_round_frame [OF l b]
    by (simp add: drop_encoded_frame [OF assms(1,2)])
  have e: "ProcessIncomingData_round env ?s' = None"
    using assms(3) by (intro ProcessIncomingData_round_short) (simp add: read_buffer_HandleMessage)
  show ?thesis
    by (simp add: ProcessIncomingData_loop_round [OF r] ProcessIncomingData_loop_end [OF e])
qed

lemma run_append:
  "run env (es @ es') s = (case run env es s of None \<Rightarrow> None | Some s1 \<Rightarrow> run env es' s1)"
  by (induction es arbitrary: s) (auto split: option.splits)

lemma run_to_Connected:
  "run env0 [Call_Initialize [True], Socket_connected,
             Socket_readyRead ([1,0,0,0, 32,0,0,0] @ ready_message)] (DiscordRPC_new ''1234'') =
     Some ((DiscordRPC_new ''1234'')
             \<lparr>socket_state := ConnectedState, socket_written := [[0,0,0,0, 0,0,0,0]],
              rpc_state := Connected\<rparr>)"
proof -
  let ?s2 = "(DiscordRPC_new ''1234'')
             \<lparr>socket_state := ConnectedState, socket_written := [[0,0,0,0, 0,0,0,0]],
              rpc_state := SentHandshake\<rparr>"
  have s12: "run env0 [Call_Initialize [True], Socket_connected] (DiscordRPC_new ''1234'') = Some ?s2"
    by (simp add: Initialize_def ConnectToDiscord_def OnConnected_def SendHandshake_def
        CreateHandshakeMessage_def socket_write_def frame_bytes_def le32_def env0_def
        DiscordRPC_new_def Let_def)
  let ?s3 = "?s2\<lparr>read_buffer := read_buffer ?s2 @ ([1,0,0,0, 32,0,0,0] @ ready_message)\<rparr>"
  have len: "length ready_message + 8 < (2 :: nat) ^ 32" by (simp add: ready_message_bytes)
  have buf: "read_buffer ?s3 = encode_frame (Opcode_Frame, ready_message) @ []"
    by (simp add: encode_frame_def frame_bytes_def le32_def ready_message_bytes DiscordRPC_new_def)
  have "ProcessIncomingData_loop env0 ?s3 [] =
      Some (HandleMessage env0 ready_message (?s3\<lparr>read_buffer := []\<rparr>), [] @ [(Opcode_Frame, ready_message)])"
    by (rule ProcessIncomingData_Frame_then_wait [OF len buf]) simp
  then have s3: "step env0 (Socket_readyRead ([1,0,0,0, 32,0,0,0] @ ready_message)) ?s2 =
      Some ((DiscordRPC_new ''1234'')
             \<lparr>socket_state := ConnectedState, socket_written := [[0,0,0,0, 0,0,0,0]],
              rpc_state := Connected\<rparr>)"
    by (simp add: OnReadyRead_def ProcessIncomingData_def HandleMessage_def env0_def
        ready_document_def DiscordRPC_new_def)
  have "run env0 ([Call_Initialize [True], Socket_connected] @
             [Socket_readyRead ([1,0,0,0, 32,0,0,0] @ ready_message)]) (DiscordRPC_new ''1234'') =
     Some ((DiscordRPC_new ''1234'')
             \<lparr>socket_state := ConnectedState, socket_written := [[0,0,0,0, 0,0,0,0]],
              rpc_state := Connected\<rparr>)"
    unfolding run_append s12 using s3 by simp
  then show ?thesis by simp
qed

text \<open>
  C4, as amended. The stored delay is reset to the floor by \<^verbatim>\<open>OnConnected\<close>, the step
  in which the transport has connected and the handshake is sent, and which enters
  \<open>SentHandshake\<close>. The step that enters \<open>Connected\<close>, \<^verbatim>\<open>HandleMessage\<close>, leaves the
  stored delay as it is. So whenever a run of the event loop from the constructed object
  ends in \<open>Connected\<close>, the delay is the floor.
\<close>

theorem delay_reset_with_handshake:
  "rpc_state (OnConnected env s) = SentHandshake \<and>
   reconnect_delay (OnConnected env s) = kReconnectMinDelayMs \<and>
   reconnect_delay (HandleMessage env data s) = reconnect_delay s \<and>
   (run env es (DiscordRPC_new app) = Some s' \<and> rpc_state s' = Connected \<longrightarrow>
      reconnect_delay s' = kReconnectMinDelayMs)"
proof (intro conjI impI)
  show "rpc_state (OnConnected env s) = SentHandshake"
    by (simp add: OnConnected_def SendHandshake_def socket_write_def Let_def)
  show "reconnect_delay (OnConnected env s) = kReconnectMinDelayMs"
    by (simp add: OnConnected_def SendHandshake_def socket_write_def Let_def)
  show "reconnect_delay (HandleMessage env data s) = reconnect_delay s"
    by (rule HandleMessage_delay)
next
  assume a: "run env es (DiscordRPC_new app) = Some s' \<and> rpc_state s' = Connected"
  have "rpc_state (DiscordRPC_new app) = SentHandshake \<or> rpc_state (DiscordRPC_new app) = Connected \<longrightarrow>
      reconnect_delay (DiscordRPC_new app) = kReconnectMinDelayMs"
    by (simp add: DiscordRPC_new_def)
  from run_delay [OF a [THEN conjunct1] this] a
  show "reconnect_delay s' = kReconnectMinDelayMs" by simp
qed

text \<open>A run that ends in \<open>Connected\<close>: a connection attempt that succeeds, the
  \<^verbatim>\<open>connected\<close> notification, and the READY message in one read.\<close>

theorem delay_reset_with_handshake_witness:
  "run env0 [Call_Initialize [True], Socket_connected,
             Socket_readyRead ([1,0,0,0, 32,0,0,0] @ ready_message)] (DiscordRPC_new ''1234'') =
     Some ((DiscordRPC_new ''1234'')
             \<lparr>socket_state := ConnectedState, socket_written := [[0,0,0,0, 0,0,0,0]],
              rpc_state := Connected\<rparr>) \<and>
   rpc_state ((DiscordRPC_new ''1234'')
             \<lparr>socket_state := ConnectedState, socket_written := [[0,0,0,0, 0,0,0,0]],
              rpc_state := Connected\<rparr>) = Connected \<and>
   reconnect_delay ((DiscordRPC_new ''1234'')
             \<lparr>socket_state := ConnectedState, socket_written := [[0,0,0,0, 0,0,0,0]],
              rpc_state := Connected\<rparr>) = kReconnectMinDelayMs"
proof -
  have h: "run env0 [Call_Initialize [True], Socket_connected,
             Socket_readyRead ([1,0,0,0, 32,0,0,0] @ ready_message)] (DiscordRPC_new ''1234'') =
     Some ((DiscordRPC_new ''1234'')
             \<lparr>socket_state := ConnectedState, socket_written := [[0,0,0,0, 0,0,0,0]],
              rpc_state := Connected\<rparr>) \<and>
   rpc_state ((DiscordRPC_new ''1234'')
             \<lparr>socket_state := ConnectedState, socket_written := [[0,0,0,0, 0,0,0,0]],
              rpc_state := Connected\<rparr>) = Connected"
    using run_to_Connected by simp
  note t = delay_reset_with_handshake [THEN conjunct2, THEN conjunct2, THEN conjunct2, THEN mp, OF h]
  show ?thesis using h t by blast
qed

text \<open>
  C4 as stated fails: it says that entering \<open>SentHandshake\<close> leaves the stored delay
  unchanged. After one failed attempt the delay is 1000 ms; the next attempt connects, and
  the \<^verbatim>\<open>connected\<close> notification enters \<open>SentHandshake\<close> with the delay at 500 ms.
\<close>

theorem delay_reset_with_handshake_counterexample:
  "map_option reconnect_delay
     (run env0 [Call_Initialize [False], Timer_timeout [True]] (DiscordRPC_new [])) = Some 1000 \<and>
   map_option rpc_state
     (run env0 [Call_Initialize [False], Timer_timeout [True], Socket_connected] (DiscordRPC_new [])) =
     Some SentHandshake \<and>
   map_option reconnect_delay
     (run env0 [Call_Initialize [False], Timer_timeout [True], Socket_connected] (DiscordRPC_new [])) =
     Some 500"
  by (simp add: Initialize_def ConnectToDiscord_def ScheduleReconnect_def OnReconnectTimer_def
      OnConnected_def SendHandshake_def socket_write_def DiscordRPC_new_def int32_def
      kReconnectMinDelayMs_def kReconnectMaxDelayMs_def Let_def)

subsection \<open>C5: Shutdown and the reconnect timer\<close>

text \<open>
  What holds of C5: \<^verbatim>\<open>Shutdown\<close> leaves the state \<open>Disconnected\<close>; on an unconnected
  socket it does nothing but stop the timer and set the state, so that it changes nothing
  in an object that was never initialized; and after two calls of \<^verbatim>\<open>Shutdown\<close> in a
  row the state is \<open>Disconnected\<close> and the timer is stopped.
\<close>

lemma Shutdown_state: "rpc_state (Shutdown s) = Disconnected"
  by (simp add: Shutdown_def Let_def)

lemma Shutdown_unconnected:
  "socket_state s = UnconnectedState \<Longrightarrow>
     Shutdown s = s\<lparr>reconnect_timer := None, rpc_state := Disconnected\<rparr>"
  by (simp add: Shutdown_def Let_def)

lemma Shutdown_twice:
  "rpc_state (Shutdown (Shutdown s)) = Disconnected \<and> reconnect_timer (Shutdown (Shutdown s)) = None"
  by (simp add: Shutdown_def socket_disconnectFromServer_def OnDisconnected_def
      ScheduleReconnect_def Let_def)

lemma Shutdown_without_Initialize: "Shutdown (DiscordRPC_new app) = DiscordRPC_new app"
  by (simp add: Shutdown_def DiscordRPC_new_def Let_def)

text \<open>Where it fails: on a socket that is not unconnected, the timer that \<^verbatim>\<open>Shutdown\<close>
  has stopped is running again, with the stored delay, when \<^verbatim>\<open>Shutdown\<close> returns.\<close>

lemma Shutdown_rearms_timer:
  "socket_state s \<noteq> UnconnectedState \<Longrightarrow> reconnect_timer (Shutdown s) = Some (reconnect_delay s)"
  by (simp add: Shutdown_def socket_disconnectFromServer_def OnDisconnected_def
      ScheduleReconnect_def Let_def)

text \<open>
  C5, where the code departs from it. The object connects and sends its handshake, then
  \<^verbatim>\<open>Shutdown\<close> is called: it stops the timer and calls \<^verbatim>\<open>disconnectFromServer\<close>,
  inside which \<^verbatim>\<open>OnDisconnected\<close> calls \<^verbatim>\<open>ScheduleReconnect\<close> as after any lost
  connection. When \<^verbatim>\<open>Shutdown\<close> returns the state is \<open>Disconnected\<close> and the timer
  runs, with 500 ms. When it times out, \<^verbatim>\<open>ConnectToDiscord\<close> makes a connection
  attempt, with no \<^verbatim>\<open>Initialize\<close> since the \<^verbatim>\<open>Shutdown\<close>.
\<close>

theorem shutdown_then_reconnect:
  "map_option reconnect_timer
     (run env0 [Call_Initialize [True], Socket_connected, Call_Shutdown] (DiscordRPC_new [])) =
     Some (Some 500) \<and>
   map_option rpc_state
     (run env0 [Call_Initialize [True], Socket_connected, Call_Shutdown] (DiscordRPC_new [])) =
     Some Disconnected \<and>
   map_option rpc_state
     (run env0 [Call_Initialize [True], Socket_connected, Call_Shutdown, Timer_timeout [True]]
        (DiscordRPC_new [])) = Some Connecting"
  by (simp add: Initialize_def ConnectToDiscord_def ScheduleReconnect_def OnReconnectTimer_def
      OnConnected_def SendHandshake_def socket_write_def DiscordRPC_new_def int32_def
      Shutdown_def socket_disconnectFromServer_def OnDisconnected_def
      kReconnectMinDelayMs_def kReconnectMaxDelayMs_def Let_def)

end
